theory Spec2Isabelle
  imports Complex_Main "HOL-Library.Sublist"
begin

section \<open>Guest registration: store, rate limiter, submission and document rendering\<close>

text \<open>
  A shallow embedding of \<^verbatim>\<open>src/lib/kv.ts\<close>, \<^verbatim>\<open>src/app/api/submit/route.ts\<close> (the
  submission endpoint and, appended to the same file, the success page) and
  \<^verbatim>\<open>src/app/api/pdf/route.ts\<close>.

  JavaScript strings are modelled as \<^typ>\<open>string\<close>: one \<^typ>\<open>char\<close> per code unit, so the
  model covers the code units 0 to 255. JavaScript numbers are \<^typ>\<open>int\<close> where the source
  holds integers (timestamps, counters, lengths) and \<^typ>\<open>rat\<close> where it divides.
\<close>

subsection \<open>String helpers of the JavaScript runtime\<close>

text \<open>\<^verbatim>\<open>s.split(c)\<close> for a one-character separator: never the empty list.\<close>

fun split_js :: "char \<Rightarrow> string \<Rightarrow> string list" where
  "split_js c [] = [[]]"
| "split_js c (x # xs) =
     (if x = c then [] # split_js c xs
      else (case split_js c xs of
              w # ws \<Rightarrow> (x # w) # ws
            | [] \<Rightarrow> [[x]]))"

text \<open>\<^verbatim>\<open>arr[i]\<close>: \<^verbatim>\<open>undefined\<close> (here \<open>None\<close>) out of range.\<close>

definition nth_js :: "'a list \<Rightarrow> nat \<Rightarrow> 'a option" where
  "nth_js xs i = (if i < length xs then Some (xs ! i) else None)"

definition startsWith :: "string \<Rightarrow> string \<Rightarrow> bool" where
  "startsWith s p = (take (length p) s = p)"

text \<open>\<^verbatim>\<open>toLowerCase\<close> on the code units 0 to 255: A-Z and the Latin-1 capitals.\<close>

definition lowerChar :: "char \<Rightarrow> char" where
  "lowerChar c =
     (let n = (of_char c :: nat) in
      if (65 \<le> n \<and> n \<le> 90) \<or> (192 \<le> n \<and> n \<le> 222 \<and> n \<noteq> 215)
      then char_of (n + 32) else c)"

definition toLowerCase :: "string \<Rightarrow> string" where
  "toLowerCase s = map lowerChar s"

definition isDigit :: "char \<Rightarrow> bool" where
  "isDigit c = (let n = (of_char c :: nat) in 48 \<le> n \<and> n \<le> 57)"

definition isAlpha :: "char \<Rightarrow> bool" where
  "isAlpha c = (let n = (of_char c :: nat) in (65 \<le> n \<and> n \<le> 90) \<or> (97 \<le> n \<and> n \<le> 122))"

text \<open>The regular-expression classes \<^verbatim>\<open>\s\<close>, \<^verbatim>\<open>\w\<close> and \<^verbatim>\<open>.\<close> on the code units 0 to 255.\<close>

definition isSpace :: "char \<Rightarrow> bool" where
  "isSpace c = (let n = (of_char c :: nat) in (9 \<le> n \<and> n \<le> 13) \<or> n = 32 \<or> n = 160)"

definition isWordChar :: "char \<Rightarrow> bool" where
  "isWordChar c = (isAlpha c \<or> isDigit c \<or> c = CHR ''_'')"

definition isDot :: "char \<Rightarrow> bool" where
  "isDot c = (c \<noteq> CHR 0x0A \<and> c \<noteq> CHR 0x0D)"

subsection \<open>The record store (\<^verbatim>\<open>src/lib/kv.ts\<close>)\<close>

record regdata =
  fullName :: string
  idOrPassport :: string
  nationality :: string
  residenceStatus :: string
  homeAddress :: string
  phone :: string
  email :: string
  checkIn :: string
  checkOut :: string
  guests :: rat
  selfie :: string
  idImage :: string
  signature :: string
  popiaConsent :: bool
  nonRefundAck :: bool

record metadata =
  userAgent :: string
  ip :: string
  timestamp :: string

record submission =
  sid :: string
  createdAt :: int
  sdata :: regdata
  smeta :: metadata

text \<open>
  What the two callers store: a rate-limit counter \<^verbatim>\<open>{count, resetTime}\<close> or a submission.
  A counter field is \<open>None\<close> where JavaScript has \<^verbatim>\<open>undefined\<close> or \<^verbatim>\<open>NaN\<close>.
\<close>

datatype stored = RateRec "int option" "int option" | Sub submission

text \<open>
  The remote store keeps, with each value, the expiry in seconds it was written with
  (\<open>None\<close>: the key never expires). The in-memory fallback is a plain map.
\<close>

record state =
  kv :: "string \<rightharpoonup> (stored \<times> int option)"
  memory :: "string \<rightharpoonup> stored"

text \<open>
  The remote client \<^verbatim>\<open>@vercel/kv\<close> is an external service: \<^verbatim>\<open>kv.set(key, value, opts)\<close> and
  \<^verbatim>\<open>kv.get(key)\<close> either answer or throw. Whether a call answers is an input, \<open>up\<close>.
\<close>

definition kv_set ::
  "bool \<Rightarrow> string \<Rightarrow> stored \<Rightarrow> int option \<Rightarrow> (string \<rightharpoonup> (stored \<times> int option))
     \<Rightarrow> (string \<rightharpoonup> (stored \<times> int option)) option" where
  "kv_set up key v ex s = (if up then Some (s(key \<mapsto> (v, ex))) else None)"

definition kv_get ::
  "bool \<Rightarrow> string \<Rightarrow> (string \<rightharpoonup> (stored \<times> int option)) \<Rightarrow> stored option option" where
  "kv_get up key s = (if up then Some (map_option fst (s key)) else None)"

text \<open>
  \<^verbatim>\<open>kvSet(key, value)\<close> declares two parameters. Both callers pass a third argument
  \<^verbatim>\<open>{ ex: seconds }\<close>, here \<open>opts\<close>, which JavaScript discards: \<^verbatim>\<open>kv.set(key, value)\<close> is called
  without options. A throwing \<^verbatim>\<open>kv.set\<close> is caught and the value goes to the fallback map.
\<close>

definition kvSet :: "bool \<Rightarrow> string \<Rightarrow> stored \<Rightarrow> int option \<Rightarrow> state \<Rightarrow> state" where
  "kvSet up key v opts st =
     (case kv_set up key v None (kv st) of
        Some s' \<Rightarrow> st\<lparr>kv := s'\<rparr>
      | None \<Rightarrow> st\<lparr>memory := (memory st)(key \<mapsto> v)\<rparr>)"

text \<open>
  \<^verbatim>\<open>kvGet(key)\<close>: the remote value when the call answers with one, otherwise (no value, or
  the call threw) the fallback map's value, otherwise \<^verbatim>\<open>null\<close>.
\<close>

definition kvGet :: "bool \<Rightarrow> string \<Rightarrow> state \<Rightarrow> stored option" where
  "kvGet up key st =
     (case kv_get up key (kv st) of
        Some (Some v) \<Rightarrow> Some v
      | _ \<Rightarrow> memory st key)"

subsection \<open>The rate limiter (\<^verbatim>\<open>checkRateLimit\<close>)\<close>

text \<open>
  What one request reads from its environment: whether each of its three store calls
  answers, the clock at each place the source reads it, and the random identifier.
\<close>

record env =
  kvGetUp :: bool
  kvSetRateUp :: bool
  kvSetGuestUp :: bool
  nowRate :: int
  nowValidate :: int
  nowCreated :: int
  isoNow :: string
  randomUUID :: string

definition windowMs :: int where
  "windowMs = 15 * 60 * 1000"

definition maxRequests :: int where
  "maxRequests = 3"

definition rateKey :: "string \<Rightarrow> string" where
  "rateKey identifier = ''rate_limit:'' @ identifier"

text \<open>JavaScript comparisons with \<^verbatim>\<open>undefined\<close> or \<^verbatim>\<open>NaN\<close> are false.\<close>

definition js_gt :: "int \<Rightarrow> int option \<Rightarrow> bool" where
  "js_gt a b = (case b of Some b' \<Rightarrow> a > b' | None \<Rightarrow> False)"

definition js_ge :: "int option \<Rightarrow> int \<Rightarrow> bool" where
  "js_ge a b = (case a of Some a' \<Rightarrow> a' \<ge> b | None \<Rightarrow> False)"

text \<open>
  The fields a lookup result shows as a counter. A submission found under the key has
  neither \<^verbatim>\<open>count\<close> nor \<^verbatim>\<open>resetTime\<close>.
\<close>

fun recCount :: "stored \<Rightarrow> int option" where
  "recCount (RateRec c r) = c"
| "recCount (Sub s) = None"

fun recReset :: "stored \<Rightarrow> int option" where
  "recReset (RateRec c r) = r"
| "recReset (Sub s) = None"

text \<open>
  Neither \<^verbatim>\<open>kvGet\<close> nor \<^verbatim>\<open>kvSet\<close> throws, so the \<^verbatim>\<open>catch\<close> of \<^verbatim>\<open>checkRateLimit\<close> has no branch
  here.
\<close>

definition checkRateLimit :: "env \<Rightarrow> string \<Rightarrow> state \<Rightarrow> bool \<times> state" where
  "checkRateLimit e identifier st =
     (let key = rateKey identifier;
          rec = kvGet (kvGetUp e) key st;
          now = nowRate e
      in case rec of
           None \<Rightarrow>
             (True, kvSet (kvSetRateUp e) key (RateRec (Some 1) (Some (now + windowMs)))
                      (Some (windowMs div 1000)) st)
         | Some r \<Rightarrow>
             if js_gt now (recReset r) then
               (True, kvSet (kvSetRateUp e) key (RateRec (Some 1) (Some (now + windowMs)))
                        (Some (windowMs div 1000)) st)
             else if js_ge (recCount r) maxRequests then (False, st)
             else
               (True, kvSet (kvSetRateUp e) key
                        (RateRec (map_option (\<lambda>c. c + 1) (recCount r)) (recReset r))
                        (map_option (\<lambda>t. (t - now) div 1000) (recReset r)) st))"

subsection \<open>The validation schema (\<^verbatim>\<open>RegistrationSchema\<close>)\<close>

text \<open>The request body after \<^verbatim>\<open>request.json()\<close>. An object keeps its members in order.\<close>

datatype json =
    JNull
  | JBool bool
  | JNum rat
  | JStr string
  | JArr "json list"
  | JObj "(string \<times> json) list"

text \<open>\<^verbatim>\<open>data[key]\<close> on a parsed object: the last member of that name, \<^verbatim>\<open>undefined\<close> if none.\<close>

definition getMember :: "(string \<times> json) list \<Rightarrow> string \<Rightarrow> json option" where
  "getMember ms key = map_of (rev ms) key"

text \<open>
  One entry of \<^verbatim>\<open>error.errors\<close>, already as the handler maps it:
  \<^verbatim>\<open>{ field: err.path.join('.'), message: err.message }\<close>.
\<close>

record issue =
  field :: string
  message :: string

definition mkIssue :: "string \<Rightarrow> string \<Rightarrow> issue" where
  "mkIssue f m = \<lparr>field = f, message = m\<rparr>"

text \<open>
  The schema is interpreted by the validation library (zod, version 3), which is not part
  of the repository. Its parsing discipline, as the library implements it:
  \<^item> a value of the wrong type (or absent) gives one type issue and \<^emph>\<open>aborts\<close> that schema:
    its checks and refinements do not run and it has no value (\<open>None\<close> below);
  \<^item> on a value of the right type every check runs and every failed check adds its issue;
    a refinement chained to the schema runs too, on the same value;
  \<^item> an object parses all of its members and collects all of their issues; it aborts
    when one of its members aborted, and then the refinements chained to the object do
    not run;
  \<^item> \<^verbatim>\<open>parse\<close> throws (with the collected issues) unless there is no issue at all.
\<close>

definition typeName :: "json \<Rightarrow> string" where
  "typeName j =
     (case j of
        JNull \<Rightarrow> ''null''
      | JBool b \<Rightarrow> ''boolean''
      | JNum q \<Rightarrow> ''number''
      | JStr s \<Rightarrow> ''string''
      | JArr xs \<Rightarrow> ''array''
      | JObj ms \<Rightarrow> ''object'')"

text \<open>The library's default message for a type issue.\<close>

definition invalidType :: "string \<Rightarrow> string \<Rightarrow> json option \<Rightarrow> issue" where
  "invalidType key expected v =
     (case v of
        None \<Rightarrow> mkIssue key ''Required''
      | Some j \<Rightarrow> mkIssue key (''Expected '' @ expected @ '', received '' @ typeName j))"

text \<open>A check: no issue when the condition holds, its message on the field otherwise.\<close>

definition chk :: "bool \<Rightarrow> string \<Rightarrow> string \<Rightarrow> issue list" where
  "chk ok key msg = (if ok then [] else [mkIssue key msg])"

text \<open>
  \<^verbatim>\<open>z.string()\<close> with its checks (\<open>checks\<close>), a transformation of the value (\<open>out\<close>: the
  identity, or \<^verbatim>\<open>toLowerCase\<close>) and a chained \<^verbatim>\<open>refine\<close> (\<open>refines\<close>).
\<close>

definition zString ::
  "string \<Rightarrow> (string \<Rightarrow> issue list) \<Rightarrow> (string \<Rightarrow> string) \<Rightarrow> (string \<Rightarrow> issue list)
     \<Rightarrow> json option \<Rightarrow> issue list \<times> string option" where
  "zString key checks out refines v =
     (case v of
        Some (JStr s) \<Rightarrow> (checks s @ refines (out s), Some (out s))
      | _ \<Rightarrow> ([invalidType key ''string'' v], None))"

definition zNumber ::
  "string \<Rightarrow> (rat \<Rightarrow> issue list) \<Rightarrow> json option \<Rightarrow> issue list \<times> rat option" where
  "zNumber key checks v =
     (case v of
        Some (JNum q) \<Rightarrow> (checks q, Some q)
      | _ \<Rightarrow> ([invalidType key ''number'' v], None))"

text \<open>\<^verbatim>\<open>z.literal(true, { errorMap })\<close>: anything but \<^verbatim>\<open>true\<close> aborts with the given message.\<close>

definition zLiteralTrue :: "string \<Rightarrow> string \<Rightarrow> json option \<Rightarrow> issue list \<times> bool option" where
  "zLiteralTrue key msg v =
     (case v of
        Some (JBool True) \<Rightarrow> ([], Some True)
      | _ \<Rightarrow> ([mkIssue key msg], None))"

text \<open>
  Two parts of the platform that the schema calls and the repository does not contain:
  the library's e-mail grammar, and \<^verbatim>\<open>new Date(string)\<close> (milliseconds since the epoch,
  \<open>None\<close> for an invalid date, whose comparisons are all false).
\<close>

record platform =
  isEmail :: "string \<Rightarrow> bool"
  parseDate :: "string \<Rightarrow> int option"

text \<open>The character classes of the field patterns.\<close>

definition reFullName :: "string \<Rightarrow> bool" where
  "reFullName s =
     (s \<noteq> [] \<and> list_all (\<lambda>c. isAlpha c \<or> isSpace c \<or> c = CHR ''-'' \<or> c = CHR 0x27 \<or> c = CHR ''.'') s)"

definition reIdOrPassport :: "string \<Rightarrow> bool" where
  "reIdOrPassport s = (s \<noteq> [] \<and> list_all (\<lambda>c. isAlpha c \<or> isDigit c \<or> c = CHR ''-'') s)"

definition reNationality :: "string \<Rightarrow> bool" where
  "reNationality s = (s \<noteq> [] \<and> list_all (\<lambda>c. isAlpha c \<or> isSpace c) s)"

definition isPhoneChar :: "char \<Rightarrow> bool" where
  "isPhoneChar c = (isDigit c \<or> isSpace c \<or> c = CHR ''-'' \<or> c = CHR ''('' \<or> c = CHR '')'')"

text \<open>\<^verbatim>\<open>/^[\+]?[\d\s\-\(\)]+$/\<close>: an optional plus, then one or more phone characters.\<close>

definition rePhone :: "string \<Rightarrow> bool" where
  "rePhone s =
     (let r = (case s of c # cs \<Rightarrow> (if c = CHR ''+'' then cs else s) | [] \<Rightarrow> s)
      in r \<noteq> [] \<and> list_all isPhoneChar r)"

text \<open>The refinement of \<^verbatim>\<open>checkIn\<close>: \<^verbatim>\<open>new Date(date) > new Date()\<close>.\<close>

definition checkInFuture :: "platform \<Rightarrow> int \<Rightarrow> string \<Rightarrow> bool" where
  "checkInFuture pf now date =
     (case parseDate pf date of Some t \<Rightarrow> t > now | None \<Rightarrow> False)"

text \<open>
  The refinement shared by the three document fields, with the ceiling \<open>maxSize\<close> in
  bytes. \<^verbatim>\<open>(base64.length * 3) / 4 <= maxSize\<close> is compared without rounding.
\<close>

definition imageOk :: "int \<Rightarrow> string \<Rightarrow> bool" where
  "imageOk maxSize d =
     (if \<not> startsWith d ''data:image/'' then False
      else (case nth_js (split_js CHR '','' d) 1 of
              None \<Rightarrow> False
            | Some base64 \<Rightarrow>
                if base64 = [] then False
                else int (length base64) * 3 \<le> 4 * maxSize))"

definition maxImage :: int where
  "maxImage = 5 * 1024 * 1024"

definition maxSignature :: int where
  "maxSignature = 1 * 1024 * 1024"

text \<open>The fifteen member schemas, in the order of the source.\<close>

definition fFullName :: "json option \<Rightarrow> issue list \<times> string option" where
  "fFullName = zString ''fullName''
     (\<lambda>s. chk (length s \<ge> 2) ''fullName'' ''Full name must be at least 2 characters''
         @ chk (length s \<le> 100) ''fullName'' ''Full name must be less than 100 characters''
         @ chk (reFullName s) ''fullName'' ''Full name contains invalid characters'')
     (\<lambda>s. s) (\<lambda>s. [])"

definition fIdOrPassport :: "json option \<Rightarrow> issue list \<times> string option" where
  "fIdOrPassport = zString ''idOrPassport''
     (\<lambda>s. chk (length s \<ge> 4) ''idOrPassport'' ''ID/Passport must be at least 4 characters''
         @ chk (length s \<le> 20) ''idOrPassport'' ''ID/Passport must be less than 20 characters''
         @ chk (reIdOrPassport s) ''idOrPassport'' ''ID/Passport contains invalid characters'')
     (\<lambda>s. s) (\<lambda>s. [])"

definition fNationality :: "json option \<Rightarrow> issue list \<times> string option" where
  "fNationality = zString ''nationality''
     (\<lambda>s. chk (length s \<ge> 2) ''nationality'' ''Nationality must be at least 2 characters''
         @ chk (length s \<le> 50) ''nationality'' ''Nationality must be less than 50 characters''
         @ chk (reNationality s) ''nationality'' ''Nationality contains invalid characters'')
     (\<lambda>s. s) (\<lambda>s. [])"

definition fResidenceStatus :: "json option \<Rightarrow> issue list \<times> string option" where
  "fResidenceStatus = zString ''residenceStatus''
     (\<lambda>s. chk (length s \<ge> 2) ''residenceStatus'' ''Residence status must be at least 2 characters''
         @ chk (length s \<le> 100) ''residenceStatus''
             ''Residence status must be less than 100 characters'')
     (\<lambda>s. s) (\<lambda>s. [])"

definition fHomeAddress :: "json option \<Rightarrow> issue list \<times> string option" where
  "fHomeAddress = zString ''homeAddress''
     (\<lambda>s. chk (length s \<ge> 5) ''homeAddress'' ''Home address must be at least 5 characters''
         @ chk (length s \<le> 300) ''homeAddress'' ''Home address must be less than 300 characters'')
     (\<lambda>s. s) (\<lambda>s. [])"

definition fPhone :: "json option \<Rightarrow> issue list \<times> string option" where
  "fPhone = zString ''phone''
     (\<lambda>s. chk (length s \<ge> 6) ''phone'' ''Phone number must be at least 6 characters''
         @ chk (length s \<le> 20) ''phone'' ''Phone number must be less than 20 characters''
         @ chk (rePhone s) ''phone'' ''Invalid phone number format'')
     (\<lambda>s. s) (\<lambda>s. [])"

definition fEmail :: "platform \<Rightarrow> json option \<Rightarrow> issue list \<times> string option" where
  "fEmail pf = zString ''email''
     (\<lambda>s. chk (isEmail pf s) ''email'' ''Invalid email address''
         @ chk (length s \<le> 100) ''email'' ''Email must be less than 100 characters'')
     toLowerCase (\<lambda>s. [])"

definition fCheckIn :: "platform \<Rightarrow> int \<Rightarrow> json option \<Rightarrow> issue list \<times> string option" where
  "fCheckIn pf now = zString ''checkIn''
     (\<lambda>s. chk (length s \<ge> 4) ''checkIn'' ''Check-in date is required'')
     (\<lambda>s. s)
     (\<lambda>s. chk (checkInFuture pf now s) ''checkIn'' ''Check-in date must be in the future'')"

definition fCheckOut :: "json option \<Rightarrow> issue list \<times> string option" where
  "fCheckOut = zString ''checkOut''
     (\<lambda>s. chk (length s \<ge> 4) ''checkOut'' ''Check-out date is required'')
     (\<lambda>s. s) (\<lambda>s. [])"

definition fGuests :: "json option \<Rightarrow> issue list \<times> rat option" where
  "fGuests = zNumber ''guests''
     (\<lambda>q. chk (q = of_int \<lfloor>q\<rfloor>) ''guests'' ''Number of guests must be a whole number''
         @ chk (q \<ge> 1) ''guests'' ''At least 1 guest is required''
         @ chk (q \<le> 20) ''guests'' ''Maximum 20 guests allowed'')"

definition fSelfie :: "json option \<Rightarrow> issue list \<times> string option" where
  "fSelfie = zString ''selfie''
     (\<lambda>s. chk (length s \<ge> 10) ''selfie'' ''Selfie is required'')
     (\<lambda>s. s)
     (\<lambda>s. chk (imageOk maxImage s) ''selfie''
             ''Invalid selfie image or file too large (max 5MB)'')"

definition fIdImage :: "json option \<Rightarrow> issue list \<times> string option" where
  "fIdImage = zString ''idImage''
     (\<lambda>s. chk (length s \<ge> 10) ''idImage'' ''ID/Passport image is required'')
     (\<lambda>s. s)
     (\<lambda>s. chk (imageOk maxImage s) ''idImage''
             ''Invalid ID/Passport image or file too large (max 5MB)'')"

definition fSignature :: "json option \<Rightarrow> issue list \<times> string option" where
  "fSignature = zString ''signature''
     (\<lambda>s. chk (length s \<ge> 10) ''signature'' ''Digital signature is required'')
     (\<lambda>s. s)
     (\<lambda>s. chk (imageOk maxSignature s) ''signature''
             ''Invalid signature or file too large (max 1MB)'')"

definition fPopiaConsent :: "json option \<Rightarrow> issue list \<times> bool option" where
  "fPopiaConsent = zLiteralTrue ''popiaConsent'' ''POPIA consent is required''"

definition fNonRefundAck :: "json option \<Rightarrow> issue list \<times> bool option" where
  "fNonRefundAck = zLiteralTrue ''nonRefundAck''
     ''Non-refund policy acknowledgment is required''"

text \<open>
  The object schema: every member is parsed and every issue kept; the object has a value
  only when no member aborted.
\<close>

definition parseMembers ::
  "platform \<Rightarrow> int \<Rightarrow> (string \<times> json) list \<Rightarrow> issue list \<times> regdata option" where
  "parseMembers pf now ms =
     (let r1 = fFullName (getMember ms ''fullName'');
          r2 = fIdOrPassport (getMember ms ''idOrPassport'');
          r3 = fNationality (getMember ms ''nationality'');
          r4 = fResidenceStatus (getMember ms ''residenceStatus'');
          r5 = fHomeAddress (getMember ms ''homeAddress'');
          r6 = fPhone (getMember ms ''phone'');
          r7 = fEmail pf (getMember ms ''email'');
          r8 = fCheckIn pf now (getMember ms ''checkIn'');
          r9 = fCheckOut (getMember ms ''checkOut'');
          r10 = fGuests (getMember ms ''guests'');
          r11 = fSelfie (getMember ms ''selfie'');
          r12 = fIdImage (getMember ms ''idImage'');
          r13 = fSignature (getMember ms ''signature'');
          r14 = fPopiaConsent (getMember ms ''popiaConsent'');
          r15 = fNonRefundAck (getMember ms ''nonRefundAck'')
      in (fst r1 @ fst r2 @ fst r3 @ fst r4 @ fst r5 @ fst r6 @ fst r7 @ fst r8 @ fst r9
            @ fst r10 @ fst r11 @ fst r12 @ fst r13 @ fst r14 @ fst r15,
          Option.bind (snd r1) (\<lambda>v1. Option.bind (snd r2) (\<lambda>v2.
          Option.bind (snd r3) (\<lambda>v3. Option.bind (snd r4) (\<lambda>v4.
          Option.bind (snd r5) (\<lambda>v5. Option.bind (snd r6) (\<lambda>v6.
          Option.bind (snd r7) (\<lambda>v7. Option.bind (snd r8) (\<lambda>v8.
          Option.bind (snd r9) (\<lambda>v9. Option.bind (snd r10) (\<lambda>v10.
          Option.bind (snd r11) (\<lambda>v11. Option.bind (snd r12) (\<lambda>v12.
          Option.bind (snd r13) (\<lambda>v13. Option.bind (snd r14) (\<lambda>v14.
          Option.bind (snd r15) (\<lambda>v15.
            Some \<lparr>fullName = v1, idOrPassport = v2, nationality = v3, residenceStatus = v4,
                  homeAddress = v5, phone = v6, email = v7, checkIn = v8, checkOut = v9,
                  guests = v10, selfie = v11, idImage = v12, signature = v13,
                  popiaConsent = v14, nonRefundAck = v15\<rparr>)))))))))))))))))"

text \<open>The two cross-field refinements, both reported on the path \<^verbatim>\<open>["checkOut"]\<close>.\<close>

definition checkOutAfterCheckIn :: "platform \<Rightarrow> regdata \<Rightarrow> bool" where
  "checkOutAfterCheckIn pf d =
     (case (parseDate pf (checkIn d), parseDate pf (checkOut d)) of
        (Some ci, Some co) \<Rightarrow> co > ci
      | _ \<Rightarrow> False)"

definition stayAtMostYear :: "platform \<Rightarrow> regdata \<Rightarrow> bool" where
  "stayAtMostYear pf d =
     (case (parseDate pf (checkIn d), parseDate pf (checkOut d)) of
        (Some ci, Some co) \<Rightarrow>
          (let diffTime = \<bar>co - ci\<bar>;
               diffDays = \<lceil>(of_int diffTime :: rat) / (1000 * 60 * 60 * 24)\<rceil>
           in diffDays \<le> 365)
      | _ \<Rightarrow> False)"

definition crossIssues :: "platform \<Rightarrow> regdata \<Rightarrow> issue list" where
  "crossIssues pf d =
     chk (checkOutAfterCheckIn pf d) ''checkOut'' ''Check-out date must be after check-in date''
     @ chk (stayAtMostYear pf d) ''checkOut'' ''Stay duration cannot exceed 365 days''"

text \<open>
  \<^verbatim>\<open>RegistrationSchema.parse(payload)\<close>: the validated data, or (\<open>Inl\<close>) the issues of the
  thrown error, mapped to fields.
\<close>

definition RegistrationSchema_parse :: "platform \<Rightarrow> int \<Rightarrow> json \<Rightarrow> issue list + regdata" where
  "RegistrationSchema_parse pf now payload =
     (case payload of
        JObj ms \<Rightarrow>
          (case parseMembers pf now ms of
             (iss, None) \<Rightarrow> Inl iss
           | (iss, Some d) \<Rightarrow>
               (let all = iss @ crossIssues pf d
                in if all = [] then Inr d else Inl all))
      | _ \<Rightarrow> Inl [invalidType [] ''object'' (Some payload)])"

subsection \<open>The spam heuristic (\<^verbatim>\<open>detectSpamPatterns\<close>)\<close>

text \<open>A pattern letter under the flag \<^verbatim>\<open>i\<close> matches itself and its ASCII capital only.\<close>

definition asciiLower :: "char \<Rightarrow> char" where
  "asciiLower c =
     (let n = (of_char c :: nat) in if 65 \<le> n \<and> n \<le> 90 then char_of (n + 32) else c)"

definition startsWithCI :: "string \<Rightarrow> string \<Rightarrow> bool" where
  "startsWithCI s w = (map asciiLower (take (length w) s) = w)"

text \<open>An unanchored pattern is tried at every position, the end included.\<close>

fun anywhere :: "(string \<Rightarrow> bool) \<Rightarrow> string \<Rightarrow> bool" where
  "anywhere P [] = P []"
| "anywhere P (c # cs) = (P (c # cs) \<or> anywhere P cs)"

text \<open>\<^verbatim>\<open>/(.)\1{10,}/\<close>: a character other than a line terminator, then ten or more copies.\<close>

definition repeatedAt :: "string \<Rightarrow> bool" where
  "repeatedAt s =
     (case s of
        [] \<Rightarrow> False
      | c # cs \<Rightarrow> isDot c \<and> length (takeWhile (\<lambda>x. x = c) cs) \<ge> 10)"

text \<open>\<^verbatim>\<open>/(test|fake|spam|dummy)\d*@/i\<close>.\<close>

definition testWords :: "string list" where
  "testWords = [''test'', ''fake'', ''spam'', ''dummy'']"

definition testEmailAt :: "string \<Rightarrow> bool" where
  "testEmailAt s =
     list_ex (\<lambda>w. startsWithCI s w \<and>
                  (case dropWhile isDigit (drop (length w) s) of
                     [] \<Rightarrow> False
                   | c # cs \<Rightarrow> c = CHR ''@'')) testWords"

text \<open>\<^verbatim>\<open>/^\s*$/\<close>.\<close>

definition blankText :: "string \<Rightarrow> bool" where
  "blankText s = list_all isSpace s"

text \<open>
  \<^verbatim>\<open>/\b(viagra|casino|lottery|winner|congratulations|urgent|click here)\b/i\<close>. Every
  keyword begins and ends with a word character, so the boundary before it asks for no
  word character in front, and the boundary after it for none behind.
\<close>

definition spamKeywords :: "string list" where
  "spamKeywords =
     [''viagra'', ''casino'', ''lottery'', ''winner'', ''congratulations'', ''urgent'',
      ''click here'']"

definition keywordAt :: "string \<Rightarrow> bool" where
  "keywordAt s =
     list_ex (\<lambda>w. startsWithCI s w \<and>
                  (case drop (length w) s of
                     [] \<Rightarrow> True
                   | c # cs \<Rightarrow> \<not> isWordChar c)) spamKeywords"

fun keywordFrom :: "bool \<Rightarrow> string \<Rightarrow> bool" where
  "keywordFrom prevWord [] = False"
| "keywordFrom prevWord (c # cs) =
     ((\<not> prevWord \<and> keywordAt (c # cs)) \<or> keywordFrom (isWordChar c) cs)"

definition spamText :: "regdata \<Rightarrow> string" where
  "spamText d = toLowerCase (fullName d @ '' '' @ email d @ '' '' @ homeAddress d)"

definition detectSpamPatterns :: "regdata \<Rightarrow> bool" where
  "detectSpamPatterns d =
     (let text = spamText d
      in anywhere repeatedAt text \<or> anywhere testEmailAt text \<or> blankText text
         \<or> keywordFrom False text)"

subsection \<open>The submission endpoint (\<^verbatim>\<open>POST\<close>)\<close>

text \<open>The request: the three headers the handler reads, and the body (\<open>None\<close>: not JSON).\<close>

record request =
  hUserAgent :: "string option"
  hForwardedFor :: "string option"
  hRealIp :: "string option"
  reqBody :: "json option"

datatype body =
    ErrorBody string
  | ErrorMessageBody string string
  | ValidationBody string "issue list"
  | SuccessBody string string

datatype response = Response (status: nat) (rbody: body)

text \<open>\<^verbatim>\<open>x || dflt\<close> on a header value: \<^verbatim>\<open>null\<close> and the empty string are falsy.\<close>

definition orElse :: "string option \<Rightarrow> string \<Rightarrow> string" where
  "orElse x dflt = (case x of None \<Rightarrow> dflt | Some s \<Rightarrow> if s = [] then dflt else s)"

definition clientIp :: "request \<Rightarrow> string" where
  "clientIp req =
     (case hForwardedFor req of
        None \<Rightarrow> orElse (hRealIp req) ''unknown''
      | Some forwarded \<Rightarrow>
          if forwarded = [] then orElse (hRealIp req) ''unknown''
          else hd (split_js CHR '','' forwarded))"

definition guestKey :: "string \<Rightarrow> string" where
  "guestKey submissionId = ''guest:'' @ submissionId"

definition expirationSeconds :: int where
  "expirationSeconds = 7 * 365 * 24 * 60 * 60"

text \<open>
  No call inside the handler's \<^verbatim>\<open>try\<close> throws here (\<^verbatim>\<open>kvSet\<close> catches the store's failure
  itself), so the handler's \<^verbatim>\<open>catch\<close>, the response 500, has no branch.
\<close>

definition POST :: "platform \<Rightarrow> env \<Rightarrow> request \<Rightarrow> state \<Rightarrow> response \<times> state" where
  "POST pf e req st =
     (let ua = orElse (hUserAgent req) [];
          ipAddr = clientIp req;
          (rateLimitPassed, st1) = checkRateLimit e ipAddr st
      in if \<not> rateLimitPassed then
           (Response 429 (ErrorMessageBody ''Rate limit exceeded''
              ''Too many submissions. Please try again in 15 minutes.''), st1)
         else
           (case reqBody req of
              None \<Rightarrow> (Response 400 (ErrorBody ''Invalid JSON in request body''), st1)
            | Some payload \<Rightarrow>
                (case RegistrationSchema_parse pf (nowValidate e) payload of
                   Inl errorMessages \<Rightarrow>
                     (Response 400 (ValidationBody ''Validation failed'' errorMessages), st1)
                 | Inr validatedData \<Rightarrow>
                     if detectSpamPatterns validatedData then
                       (Response 400 (ErrorBody ''Submission rejected''), st1)
                     else
                       (let submissionId = randomUUID e;
                            sub = \<lparr>sid = submissionId, createdAt = nowCreated e,
                                   sdata = validatedData,
                                   smeta = \<lparr>userAgent = ua, ip = ipAddr,
                                             timestamp = isoNow e\<rparr>\<rparr>
                        in (Response 201 (SuccessBody submissionId
                              ''Registration submitted successfully''),
                            kvSet (kvSetGuestUp e) (guestKey submissionId) (Sub sub)
                              (Some expirationSeconds) st1)))))"

subsection \<open>The identifier shape\<close>

definition isHexDigit :: "char \<Rightarrow> bool" where
  "isHexDigit c =
     (let n = (of_char c :: nat)
      in (48 \<le> n \<and> n \<le> 57) \<or> (97 \<le> n \<and> n \<le> 102) \<or> (65 \<le> n \<and> n \<le> 70))"

text \<open>\<^verbatim>\<open>[0-9a-f]{n}\<close> under the flag \<^verbatim>\<open>i\<close>, and one literal character: what is left to match.\<close>

fun matchHex :: "nat \<Rightarrow> string \<Rightarrow> string option" where
  "matchHex 0 s = Some s"
| "matchHex (Suc n) [] = None"
| "matchHex (Suc n) (c # cs) = (if isHexDigit c then matchHex n cs else None)"

fun matchChar :: "char \<Rightarrow> string \<Rightarrow> string option" where
  "matchChar d [] = None"
| "matchChar d (c # cs) = (if c = d then Some cs else None)"

text \<open>
  \<^verbatim>\<open>/^[0-9a-f]{8}-[0-9a-f]{4}-[0-9a-f]{4}-[0-9a-f]{4}-[0-9a-f]{12}$/i\<close>, the same pattern in
  the success page (\<^verbatim>\<open>isValidUUID\<close>) and in the document endpoint.
\<close>

definition isValidUUID :: "string \<Rightarrow> bool" where
  "isValidUUID uuid =
     (Option.bind (matchHex 8 uuid) (\<lambda>r1. Option.bind (matchChar CHR ''-'' r1) (\<lambda>r2.
      Option.bind (matchHex 4 r2) (\<lambda>r3. Option.bind (matchChar CHR ''-'' r3) (\<lambda>r4.
      Option.bind (matchHex 4 r4) (\<lambda>r5. Option.bind (matchChar CHR ''-'' r5) (\<lambda>r6.
      Option.bind (matchHex 4 r6) (\<lambda>r7. Option.bind (matchChar CHR ''-'' r7) (\<lambda>r8.
      matchHex 12 r8)))))))) = Some [])"

subsection \<open>The success page (\<^verbatim>\<open>SuccessPage\<close>)\<close>

text \<open>
  \<^verbatim>\<open>notFound()\<close> ends the rendering with the not-found view. A value under the key that is
  not a submission has no \<^verbatim>\<open>data\<close>, and reading \<^verbatim>\<open>data.checkIn\<close> throws: the error view.
\<close>

datatype page = NotFoundView | SummaryView string submission | ErrorView

definition SuccessPage :: "bool \<Rightarrow> string \<Rightarrow> state \<Rightarrow> page" where
  "SuccessPage up ident st =
     (if ident = [] \<or> \<not> isValidUUID ident then NotFoundView
      else (case kvGet up (guestKey ident) st of
              None \<Rightarrow> NotFoundView
            | Some (Sub sub) \<Rightarrow> SummaryView ident sub
            | Some (RateRec c r) \<Rightarrow> ErrorView))"

subsection \<open>The document endpoint (\<^verbatim>\<open>GET\<close> of \<^verbatim>\<open>src/app/api/pdf/route.ts\<close>)\<close>

datatype font = Helvetica | HelveticaBold

datatype image = Image (iwidth: rat) (iheight: rat)

text \<open>What is put on the pages, in order; \<open>AddPage\<close> starts the next page.\<close>

datatype drawop =
    AddPage
  | DrawText string rat rat rat font
  | DrawImage image rat rat rat rat

text \<open>
  The document library, the date library and the runtime are not part of the repository.
  What the handler uses of them is a parameter: the page size \<^verbatim>\<open>PageSizes.A4\<close>, which texts
  a font can encode (measuring or drawing another text throws), the width of a text,
  \<^verbatim>\<open>atob\<close>, the two image decoders (\<open>None\<close>: the call throws; an embedded image has a
  positive width and height), the two date formats and \<^verbatim>\<open>Number.toString\<close>.
\<close>

record pdflib =
  pageWidth :: rat
  pageHeight :: rat
  canEncode :: "font \<Rightarrow> string \<Rightarrow> bool"
  textWidth :: "font \<Rightarrow> string \<Rightarrow> rat \<Rightarrow> rat"
  atob :: "string \<Rightarrow> string option"
  embedPng :: "string \<Rightarrow> image option"
  embedJpg :: "string \<Rightarrow> image option"
  formatTime :: "int \<Rightarrow> string"
  formatDate :: "string \<Rightarrow> string"
  numberToString :: "rat \<Rightarrow> string"

definition widthOfTextAtSize :: "pdflib \<Rightarrow> font \<Rightarrow> string \<Rightarrow> rat \<Rightarrow> rat option" where
  "widthOfTextAtSize lib f text sz =
     (if canEncode lib f text then Some (textWidth lib f text sz) else None)"

definition pageDrawText ::
  "pdflib \<Rightarrow> string \<Rightarrow> rat \<Rightarrow> rat \<Rightarrow> rat \<Rightarrow> font \<Rightarrow> drawop list \<Rightarrow> drawop list option" where
  "pageDrawText lib text x y sz f os =
     (if canEncode lib f text then Some (os @ [DrawText text x y sz f]) else None)"

definition margin :: rat where
  "margin = 50"

text \<open>
  The loop of \<^verbatim>\<open>drawText\<close> over the words: the operations so far, the line being built and
  its height. \<open>None\<close>: a library call threw.
\<close>

fun wrapWords ::
  "pdflib \<Rightarrow> font \<Rightarrow> rat \<Rightarrow> rat \<Rightarrow> rat \<Rightarrow> string list \<Rightarrow> string \<Rightarrow> rat \<Rightarrow> drawop list
     \<Rightarrow> (drawop list \<times> string \<times> rat) option" where
  "wrapWords lib f sz maxWidth x [] line currentY os = Some (os, line, currentY)"
| "wrapWords lib f sz maxWidth x (word # ws) line currentY os =
     (let testLine = line @ (if line \<noteq> [] then '' '' else []) @ word
      in case widthOfTextAtSize lib f testLine sz of
           None \<Rightarrow> None
         | Some tw \<Rightarrow>
             if tw > maxWidth \<and> line \<noteq> [] then
               (case pageDrawText lib line x currentY sz f os of
                  None \<Rightarrow> None
                | Some os' \<Rightarrow> wrapWords lib f sz maxWidth x ws word (currentY - (sz + 2)) os')
             else wrapWords lib f sz maxWidth x ws testLine currentY os)"

text \<open>
  \<^verbatim>\<open>drawText(text, x, yPos, size, useFont, maxWidth)\<close>: the operations after it and the height
  it returns. A \<^verbatim>\<open>maxWidth\<close> that is absent or zero is falsy.
\<close>

definition drawText ::
  "pdflib \<Rightarrow> string \<Rightarrow> rat \<Rightarrow> rat \<Rightarrow> rat \<Rightarrow> font \<Rightarrow> rat option \<Rightarrow> drawop list
     \<Rightarrow> (drawop list \<times> rat) option" where
  "drawText lib text x yPos sz f maxWidth os =
     (if maxWidth \<noteq> None \<and> maxWidth \<noteq> Some 0 then
        (case wrapWords lib f sz (the maxWidth) x (split_js CHR '' '' text) [] yPos os of
           None \<Rightarrow> None
         | Some (os1, line, currentY) \<Rightarrow>
             if line \<noteq> [] then
               map_option (\<lambda>os2. (os2, currentY)) (pageDrawText lib line x currentY sz f os1)
             else Some (os1, currentY))
      else map_option (\<lambda>os1. (os1, yPos)) (pageDrawText lib text x yPos sz f os))"

text \<open>The handler's two mutable variables: the pages drawn so far and the height \<^verbatim>\<open>y\<close>.\<close>

record pdfstate =
  ops :: "drawop list"
  ypos :: rat

text \<open>A statement of the handler; \<open>None\<close>: it threw outside \<^verbatim>\<open>placeImage\<close>'s own \<^verbatim>\<open>try\<close>.\<close>

type_synonym step = "pdfstate \<Rightarrow> pdfstate option"

fun runSteps :: "step list \<Rightarrow> pdfstate \<Rightarrow> pdfstate option" where
  "runSteps [] s = Some s"
| "runSteps (f # fs) s = (case f s of None \<Rightarrow> None | Some s' \<Rightarrow> runSteps fs s')"

text \<open>\<^verbatim>\<open>drawText(text, x, y, size, font, maxWidth);\<close> at the current height, result unused.\<close>

definition textAt :: "pdflib \<Rightarrow> string \<Rightarrow> rat \<Rightarrow> rat \<Rightarrow> font \<Rightarrow> rat option \<Rightarrow> step" where
  "textAt lib text x sz f maxWidth s =
     map_option (\<lambda>r. s\<lparr>ops := fst r\<rparr>) (drawText lib text x (ypos s) sz f maxWidth (ops s))"

text \<open>\<^verbatim>\<open>y = drawText(text, x, y, size, font, maxWidth);\<close>\<close>

definition textAtSetY :: "pdflib \<Rightarrow> string \<Rightarrow> rat \<Rightarrow> rat \<Rightarrow> font \<Rightarrow> rat option \<Rightarrow> step" where
  "textAtSetY lib text x sz f maxWidth s =
     map_option (\<lambda>r. s\<lparr>ops := fst r, ypos := snd r\<rparr>)
       (drawText lib text x (ypos s) sz f maxWidth (ops s))"

text \<open>\<^verbatim>\<open>y -= d;\<close>\<close>

definition down :: "rat \<Rightarrow> step" where
  "down d s = Some (s\<lparr>ypos := ypos s - d\<rparr>)"

definition checkPageSpace :: "pdflib \<Rightarrow> rat \<Rightarrow> pdfstate \<Rightarrow> pdfstate" where
  "checkPageSpace lib requiredSpace s =
     (if ypos s - requiredSpace < margin
      then s\<lparr>ops := ops s @ [AddPage], ypos := pageHeight lib - margin\<rparr>
      else s)"

text \<open>A statement that cannot throw.\<close>

definition stmt :: "(pdfstate \<Rightarrow> pdfstate) \<Rightarrow> step" where
  "stmt f s = Some (f s)"

definition addField :: "pdflib \<Rightarrow> string \<Rightarrow> string \<Rightarrow> step" where
  "addField lib label v =
     runSteps
       [stmt (checkPageSpace lib 30),
        textAt lib (label @ '':'') margin 10 HelveticaBold None,
        textAt lib v (margin + 120) 10 Helvetica
          (Some (pageWidth lib - margin - 120 - margin)),
        down 16]"

text \<open>The box an image is fitted into: 200 wide, 150 high, aspect ratio kept.\<close>

definition scaleToFit :: "image \<Rightarrow> rat \<times> rat" where
  "scaleToFit img =
     (let maxWidth = 200;
          maxHeight = 150;
          imgAspect = iwidth img / iheight img;
          imgWidth = maxWidth;
          imgHeight = maxWidth / imgAspect
      in if imgHeight > maxHeight then (maxHeight * imgAspect, maxHeight)
         else (imgWidth, imgHeight))"

text \<open>
  The body of the \<^verbatim>\<open>try\<close> of \<^verbatim>\<open>placeImage\<close> from the embedded image on. \<open>Inl\<close>: it threw,
  with the state at the throw; \<open>Inr\<close>: it completed or returned.
\<close>

definition drawPlaced :: "pdflib \<Rightarrow> image \<Rightarrow> string \<Rightarrow> pdfstate \<Rightarrow> pdfstate + pdfstate" where
  "drawPlaced lib img label s =
     (let (imgWidth, imgHeight) = scaleToFit img;
          s1 = checkPageSpace lib (imgHeight + 40) s
      in case textAt lib (label @ '':'') margin 10 HelveticaBold None s1 of
           None \<Rightarrow> Inl s1
         | Some s2 \<Rightarrow>
             (let y1 = ypos s2 - 15
              in Inr (s2\<lparr>ops := ops s2 @ [DrawImage img margin (y1 - imgHeight) imgWidth imgHeight],
                        ypos := y1 - (imgHeight + 20)\<rparr>)))"

definition tryPlace :: "pdflib \<Rightarrow> string \<Rightarrow> string \<Rightarrow> pdfstate \<Rightarrow> pdfstate + pdfstate" where
  "tryPlace lib dataUrl label s =
     (case nth_js (split_js CHR '','' dataUrl) 1 of
        None \<Rightarrow> Inl s
      | Some base64 \<Rightarrow>
          if base64 = [] then Inl s
          else (case atob lib base64 of
                  None \<Rightarrow> Inl s
                | Some bytes \<Rightarrow>
                    if startsWith dataUrl ''data:image/png'' then
                      (case embedPng lib bytes of
                         None \<Rightarrow> Inl s
                       | Some img \<Rightarrow> drawPlaced lib img label s)
                    else if startsWith dataUrl ''data:image/jpeg''
                            \<or> startsWith dataUrl ''data:image/jpg'' then
                      (case embedJpg lib bytes of
                         None \<Rightarrow> Inl s
                       | Some img \<Rightarrow> drawPlaced lib img label s)
                    else Inr s))"

definition placeholderText :: "string \<Rightarrow> string" where
  "placeholderText label = label @ '': [Image processing failed]''"

definition placeImage :: "pdflib \<Rightarrow> string \<Rightarrow> string \<Rightarrow> step" where
  "placeImage lib dataUrl label s =
     (if dataUrl = [] then Some s
      else (case tryPlace lib dataUrl label s of
              Inr s' \<Rightarrow> Some s'
            | Inl s' \<Rightarrow>
                runSteps [textAt lib (placeholderText label) margin 10 Helvetica None, down 20] s'))"

text \<open>
  The check mark of the two consent lines is the one character of the source outside
  the code units 0 to 255; it is kept as its three UTF-8 bytes.
\<close>

definition checkMark :: string where
  "checkMark = [CHR 0xE2, CHR 0x9C, CHR 0x93]"

definition legalText :: string where
  "legalText = ''This record is maintained in compliance with the Immigration Act 13 of 2002 and the Protection of Personal Information Act (POPIA). Personal information may be disclosed to authorities when lawfully required.''"

definition popiaLine :: string where
  "popiaLine = checkMark @ '' POPIA Consent: Granted''"

definition nonRefundLine :: string where
  "nonRefundLine = checkMark @ '' Non-Refund Policy: Acknowledged''"

text \<open>The statements of the handler between the lookup and \<^verbatim>\<open>pdf.save()\<close>, in order.\<close>

definition renderSteps :: "pdflib \<Rightarrow> int \<Rightarrow> string \<Rightarrow> submission \<Rightarrow> step list" where
  "renderSteps lib genNow ident sub =
     (let d = sdata sub in
      [textAt lib ''Guest Registration & Agreement'' margin 16 HelveticaBold None, down 20,
       textAt lib ''Republic of South Africa'' margin 12 HelveticaBold None, down 25,
       textAt lib (''Submission ID: '' @ ident) margin 9 Helvetica None, down 12,
       textAt lib (''Generated: '' @ formatTime lib (createdAt sub)) margin 9 Helvetica None,
       down 12,
       textAt lib ''Host: [Your Business Name]'' margin 9 Helvetica None, down 12,
       textAt lib ''Address: [Your Business Address]'' margin 9 Helvetica None, down 20,
       textAtSetY lib legalText margin 9 Helvetica (Some (pageWidth lib - 2 * margin)),
       down 25,
       textAt lib ''GUEST INFORMATION'' margin 12 HelveticaBold None, down 20,
       addField lib ''Full Name'' (fullName d),
       addField lib ''ID/Passport Number'' (idOrPassport d),
       addField lib ''Nationality'' (nationality d),
       addField lib ''Residence Status'' (residenceStatus d),
       addField lib ''Home Address'' (homeAddress d),
       addField lib ''Phone Number'' (phone d),
       addField lib ''Email Address'' (email d),
       down 10,
       textAt lib ''ACCOMMODATION DETAILS'' margin 12 HelveticaBold None, down 20,
       addField lib ''Check-in'' (formatDate lib (checkIn d)),
       addField lib ''Check-out'' (formatDate lib (checkOut d)),
       addField lib ''Number of Guests'' (numberToString lib (guests d)),
       down 15,
       textAt lib ''CONSENTS & ACKNOWLEDGMENTS'' margin 12 HelveticaBold None, down 20,
       textAt lib popiaLine margin 10 Helvetica None, down 14,
       textAt lib nonRefundLine margin 10 Helvetica None, down 25,
       textAt lib ''UPLOADED DOCUMENTS'' margin 12 HelveticaBold None, down 25,
       placeImage lib (selfie d) ''Selfie Photo'',
       placeImage lib (idImage d) ''ID/Passport Document'',
       placeImage lib (signature d) ''Digital Signature'',
       stmt (checkPageSpace lib 50), down 20,
       textAt lib ''--- End of Registration ---'' margin 9 Helvetica None, down 15,
       textAt lib (''Document generated on '' @ formatTime lib genNow) margin 8 Helvetica None])"

record document =
  title :: string
  content :: "drawop list"

definition render :: "pdflib \<Rightarrow> int \<Rightarrow> string \<Rightarrow> submission \<Rightarrow> document option" where
  "render lib genNow ident sub =
     map_option
       (\<lambda>s. \<lparr>title = ''Guest Registration - '' @ fullName (sdata sub), content = ops s\<rparr>)
       (runSteps (renderSteps lib genNow ident sub)
          \<lparr>ops = [AddPage], ypos = pageHeight lib - margin\<rparr>)"

datatype pdfresponse = JsonError nat string | PdfDocument document

text \<open>
  The handler. A value under the key that is not a submission has no \<^verbatim>\<open>data\<close>, so reading
  \<^verbatim>\<open>d.fullName\<close> throws; every throw ends in the handler's \<^verbatim>\<open>catch\<close>, the response 500.
\<close>

definition GET_pdf :: "pdflib \<Rightarrow> bool \<Rightarrow> int \<Rightarrow> string \<Rightarrow> state \<Rightarrow> pdfresponse" where
  "GET_pdf lib up genNow ident st =
     (if ident = [] \<or> \<not> isValidUUID ident then JsonError 400 ''Invalid ID format''
      else (case kvGet up (guestKey ident) st of
              None \<Rightarrow> JsonError 404 ''Registration not found''
            | Some (RateRec c r) \<Rightarrow> JsonError 500 ''Failed to generate PDF''
            | Some (Sub sub) \<Rightarrow>
                (case render lib genNow ident sub of
                   None \<Rightarrow> JsonError 500 ''Failed to generate PDF''
                 | Some doc \<Rightarrow> PdfDocument doc)))"

subsection \<open>Sequences of requests\<close>

text \<open>Requests served one after the other, each on the state the previous one left.\<close>

fun submitAll :: "platform \<Rightarrow> (env \<times> request) list \<Rightarrow> state \<Rightarrow> response list \<times> state" where
  "submitAll pf [] st = ([], st)"
| "submitAll pf ((e, req) # rs) st =
     (let (resp, st1) = POST pf e req st;
          (resps, st2) = submitAll pf rs st1
      in (resp # resps, st2))"

text \<open>The answers a run gives to the requests of client identity \<open>i\<close>, in order.\<close>

definition answersTo :: "string \<Rightarrow> platform \<Rightarrow> (env \<times> request) list \<Rightarrow> state \<Rightarrow> response list" where
  "answersTo i pf rs st =
     map snd (filter (\<lambda>(r, resp). clientIp (snd r) = i) (zip rs (fst (submitAll pf rs st))))"

text \<open>All three store calls of a request answer.\<close>

definition storeUp :: "env \<Rightarrow> bool" where
  "storeUp e = (kvGetUp e \<and> kvSetRateUp e \<and> kvSetGuestUp e)"

subsection \<open>What the document fields accept, in words\<close>

text \<open>
  A member is accepted as a document image with at most \<open>maxLen\<close> payload characters:
  it is a string of ten or more characters that begins with \<^verbatim>\<open>data:image/\<close> and has a
  non-empty payload, the text between its first and its second comma, of at most
  \<open>maxLen\<close> characters. Nothing is asked of the characters of the payload.
\<close>

definition acceptedImage :: "nat \<Rightarrow> json option \<Rightarrow> bool" where
  "acceptedImage maxLen v =
     (\<exists>s b. v = Some (JStr s) \<and> 10 \<le> length s \<and> startsWith s ''data:image/''
            \<and> nth_js (split_js CHR '','' s) 1 = Some b \<and> b \<noteq> [] \<and> length b \<le> maxLen)"

subsection \<open>The date rules and the collected issues, in words\<close>

text \<open>
  The check-out is not strictly after the check-in: its time is at or before the
  check-in's, or one of the two is not a date.
\<close>

definition notStrictlyAfter :: "platform \<Rightarrow> string \<Rightarrow> string \<Rightarrow> bool" where
  "notStrictlyAfter pf a b =
     (case (parseDate pf a, parseDate pf b) of
        (Some ci, Some co) \<Rightarrow> co \<le> ci
      | _ \<Rightarrow> True)"

text \<open>
  The stay exceeds 365 days: the two times are more than 365 times 24 hours apart, or one
  of the two is not a date.
\<close>

definition exceedsYear :: "platform \<Rightarrow> string \<Rightarrow> string \<Rightarrow> bool" where
  "exceedsYear pf a b =
     (case (parseDate pf a, parseDate pf b) of
        (Some ci, Some co) \<Rightarrow> \<bar>co - ci\<bar> > 365 * (24 * 60 * 60 * 1000)
      | _ \<Rightarrow> True)"

text \<open>The issues each member raises by itself, member by member in schema order.\<close>

definition memberIssues :: "platform \<Rightarrow> int \<Rightarrow> (string \<times> json) list \<Rightarrow> issue list list" where
  "memberIssues pf now ms =
     [fst (fFullName (getMember ms ''fullName'')),
      fst (fIdOrPassport (getMember ms ''idOrPassport'')),
      fst (fNationality (getMember ms ''nationality'')),
      fst (fResidenceStatus (getMember ms ''residenceStatus'')),
      fst (fHomeAddress (getMember ms ''homeAddress'')),
      fst (fPhone (getMember ms ''phone'')),
      fst (fEmail pf (getMember ms ''email'')),
      fst (fCheckIn pf now (getMember ms ''checkIn'')),
      fst (fCheckOut (getMember ms ''checkOut'')),
      fst (fGuests (getMember ms ''guests'')),
      fst (fSelfie (getMember ms ''selfie'')),
      fst (fIdImage (getMember ms ''idImage'')),
      fst (fSignature (getMember ms ''signature'')),
      fst (fPopiaConsent (getMember ms ''popiaConsent'')),
      fst (fNonRefundAck (getMember ms ''nonRefundAck''))]"

subsection \<open>The spam heuristic, in words\<close>





subsection \<open>The images of a record, in words\<close>

text \<open>
  The image of a slot fails: there is a data URL, and it has no payload after its first
  comma, or \<^verbatim>\<open>atob\<close> throws on the payload, or the decoder of its declared type (PNG, or
  JPEG) throws on the bytes.
\<close>

definition imageFails :: "pdflib \<Rightarrow> string \<Rightarrow> bool" where
  "imageFails lib dataUrl =
     (dataUrl \<noteq> [] \<and>
      (case nth_js (split_js CHR '','' dataUrl) 1 of
         None \<Rightarrow> True
       | Some base64 \<Rightarrow>
           base64 = [] \<or>
           (case atob lib base64 of
              None \<Rightarrow> True
            | Some bytes \<Rightarrow>
                if startsWith dataUrl ''data:image/png'' then embedPng lib bytes = None
                else (startsWith dataUrl ''data:image/jpeg'' \<or> startsWith dataUrl ''data:image/jpg'')
                     \<and> embedJpg lib bytes = None)))"

text \<open>
  The image of a slot is of an unsupported type: its payload decodes, and the data URL
  declares neither \<^verbatim>\<open>image/png\<close> nor \<^verbatim>\<open>image/jpeg\<close> nor \<^verbatim>\<open>image/jpg\<close>.
\<close>

definition imageUnsupported :: "pdflib \<Rightarrow> string \<Rightarrow> bool" where
  "imageUnsupported lib dataUrl =
     (case nth_js (split_js CHR '','' dataUrl) 1 of
        None \<Rightarrow> False
      | Some base64 \<Rightarrow>
          base64 \<noteq> [] \<and> atob lib base64 \<noteq> None
          \<and> \<not> startsWith dataUrl ''data:image/png''
          \<and> \<not> startsWith dataUrl ''data:image/jpeg''
          \<and> \<not> startsWith dataUrl ''data:image/jpg'')"

subsection \<open>A sample request\<close>

text \<open>
  A concrete platform, payload, request and library on which the handlers are evaluated
  below. The sample e-mail grammar asks for an at sign only, and the sample date parser
  knows five dates.
\<close>

definition samplePlatform :: platform where
  "samplePlatform =
     \<lparr>isEmail = (\<lambda>s. CHR ''@'' \<in> set s),
      parseDate = (\<lambda>s. if s = ''2030-01-01'' then Some 1893456000000
                        else if s = ''2030-01-05'' then Some 1893801600000
                        else if s = ''2029-12-31'' then Some 1893369600000
                        else if s = ''2031-01-02'' then Some 1925078400000
                        else if s = ''1970-01-01'' then Some 0
                        else None)\<rparr>"

definition sampleMembers :: "(string \<times> json) list" where
  "sampleMembers =
     [(''fullName'', JStr ''Ann Lee''), (''idOrPassport'', JStr ''A1234''),
      (''nationality'', JStr ''Dutch''), (''residenceStatus'', JStr ''Visitor''),
      (''homeAddress'', JStr ''1 Main Road''), (''phone'', JStr ''+27 12 345''),
      (''email'', JStr ''Ann@Example.com''), (''checkIn'', JStr ''2030-01-01''),
      (''checkOut'', JStr ''2030-01-05''), (''guests'', JNum 2),
      (''selfie'', JStr ''data:image/png;base64,AAAA''),
      (''idImage'', JStr ''data:image/gif;base64,AAAA''),
      (''signature'', JStr ''data:image/png;base64,AAAA''),
      (''popiaConsent'', JBool True), (''nonRefundAck'', JBool True)]"

definition sampleData :: regdata where
  "sampleData =
     \<lparr>fullName = ''Ann Lee'', idOrPassport = ''A1234'', nationality = ''Dutch'',
      residenceStatus = ''Visitor'', homeAddress = ''1 Main Road'', phone = ''+27 12 345'',
      email = ''ann@example.com'', checkIn = ''2030-01-01'', checkOut = ''2030-01-05'',
      guests = 2, selfie = ''data:image/png;base64,AAAA'',
      idImage = ''data:image/gif;base64,AAAA'', signature = ''data:image/png;base64,AAAA'',
      popiaConsent = True, nonRefundAck = True\<rparr>"

definition sampleEnv :: env where
  "sampleEnv =
     \<lparr>kvGetUp = True, kvSetRateUp = True, kvSetGuestUp = True, nowRate = 1000,
      nowValidate = 1001, nowCreated = 1002, isoNow = ''1970-01-01T00:00:01.002Z'',
      randomUUID = ''123e4567-e89b-42d3-a456-426614174000''\<rparr>"

definition sampleRequest :: request where
  "sampleRequest =
     \<lparr>hUserAgent = Some ''curl'', hForwardedFor = Some ''10.0.0.1, 10.0.0.2'', hRealIp = None,
      reqBody = Some (JObj sampleMembers)\<rparr>"

definition emptyState :: state where
  "emptyState = \<lparr>kv = Map.empty, memory = Map.empty\<rparr>"

definition sampleSubmission :: submission where
  "sampleSubmission =
     \<lparr>sid = ''123e4567-e89b-42d3-a456-426614174000'', createdAt = 1002, sdata = sampleData,
      smeta = \<lparr>userAgent = ''curl'', ip = ''10.0.0.1'',
                timestamp = ''1970-01-01T00:00:01.002Z''\<rparr>\<rparr>"

text \<open>The state after the sample request's rate-limit step.\<close>

definition sampleRated :: state where
  "sampleRated =
     \<lparr>kv = [rateKey ''10.0.0.1'' \<mapsto> (RateRec (Some 1) (Some 901000), None)],
      memory = Map.empty\<rparr>"

text \<open>
  Modelled on the document library: its standard fonts, Helvetica among them, are encoded
  in WinAnsi, and measuring or drawing a text with a character outside that encoding
  throws. WinAnsi has no check mark. Of the code units 0 to 255 the sample below takes
  the printable ones, 32 to 126 and 160 to 255, as encodable; of the three bytes that
  stand for the check mark here, two are outside them.
\<close>

definition isWinAnsi :: "char \<Rightarrow> bool" where
  "isWinAnsi c = (let n = (of_char c :: nat) in (32 \<le> n \<and> n \<le> 126) \<or> (160 \<le> n \<and> n \<le> 255))"

text \<open>
  A sample library: a text can be encoded when all of its characters are in WinAnsi, a
  character is half its font size wide, \<^verbatim>\<open>atob\<close> refuses a payload with a character
  outside the base64 alphabet, the PNG decoder gives a 400 by 300 image and the JPEG
  decoder throws.
\<close>

definition isBase64Char :: "char \<Rightarrow> bool" where
  "isBase64Char c = (isAlpha c \<or> isDigit c \<or> c = CHR ''+'' \<or> c = CHR ''/'' \<or> c = CHR ''='')"

definition sampleLib :: pdflib where
  "sampleLib =
     \<lparr>pageWidth = 59528 / 100, pageHeight = 84189 / 100,
      canEncode = (\<lambda>f s. list_all isWinAnsi s),
      textWidth = (\<lambda>f s sz. of_nat (length s) * sz / 2),
      atob = (\<lambda>s. if list_all isBase64Char s then Some s else None),
      embedPng = (\<lambda>b. Some (Image 400 300)),
      embedJpg = (\<lambda>b. None),
      formatTime = (\<lambda>t. ''1970-01-01 00:00:01''),
      formatDate = (\<lambda>s. s @ '' 00:00''),
      numberToString = (\<lambda>q. ''2'')\<rparr>"

text \<open>A second client: the sample request from another address.\<close>

definition otherRequest :: request where
  "otherRequest = sampleRequest\<lparr>hForwardedFor := Some ''10.0.0.2''\<rparr>"

subsection \<open>Variations of the sample payload\<close>

text \<open>The object with one member replaced.\<close>

definition setMember :: "string \<Rightarrow> json \<Rightarrow> (string \<times> json) list \<Rightarrow> (string \<times> json) list" where
  "setMember key v ms = map (\<lambda>(k, w). if k = key then (k, v) else (k, w)) ms"

definition earlyOutMembers :: "(string \<times> json) list" where
  "earlyOutMembers = setMember ''checkOut'' (JStr ''2029-12-31'') sampleMembers"

definition pastInMembers :: "(string \<times> json) list" where
  "pastInMembers = setMember ''checkIn'' (JStr ''1970-01-01'') sampleMembers"

definition earlyOutUntypedMembers :: "(string \<times> json) list" where
  "earlyOutUntypedMembers = setMember ''guests'' (JStr ''2'') earlyOutMembers"

definition longStayNoConsentMembers :: "(string \<times> json) list" where
  "longStayNoConsentMembers =
     setMember ''popiaConsent'' (JBool False)
       (setMember ''checkOut'' (JStr ''2031-01-02'') sampleMembers)"

definition sloppyMembers :: "(string \<times> json) list" where
  "sloppyMembers =
     setMember ''fullName'' (JStr ''A'')
       (setMember ''phone'' (JStr ''12'') (setMember ''guests'' (JNum 0) sampleMembers))"


section \<open>Properties\<close>

subsection \<open>Evaluation rules\<close>

lemmas char_class_defs = isAlpha_def isDigit_def isSpace_def isWordChar_def isDot_def
  lowerChar_def asciiLower_def toLowerCase_def char_of_def bit_iff_odd

lemmas member_defs = fFullName_def fIdOrPassport_def fNationality_def fResidenceStatus_def
  fHomeAddress_def fPhone_def fEmail_def fCheckIn_def fCheckOut_def fGuests_def fSelfie_def
  fIdImage_def fSignature_def fPopiaConsent_def fNonRefundAck_def
  zString_def zNumber_def zLiteralTrue_def chk_def

lemmas pattern_defs = reFullName_def reIdOrPassport_def reNationality_def rePhone_def
  isPhoneChar_def checkInFuture_def imageOk_def startsWith_def nth_js_def maxImage_def
  maxSignature_def

lemmas spam_defs = detectSpamPatterns_def spamText_def repeatedAt_def testEmailAt_def
  testWords_def startsWithCI_def blankText_def keywordAt_def spamKeywords_def

lemmas store_defs = kvGet_def kv_get_def kvSet_def kv_set_def

lemma sampleMembers_parse:
  "parseMembers samplePlatform 1001 sampleMembers = ([], Some sampleData)"
  by (simp add: parseMembers_def sampleMembers_def getMember_def samplePlatform_def
      member_defs pattern_defs char_class_defs sampleData_def)

lemma sample_cross: "crossIssues samplePlatform sampleData = []"
  by (simp add: crossIssues_def checkOutAfterCheckIn_def stayAtMostYear_def chk_def
      sampleData_def samplePlatform_def)

lemma sample_parse:
  "RegistrationSchema_parse samplePlatform 1001 (JObj sampleMembers) = Inr sampleData"
  by (simp add: RegistrationSchema_parse_def sampleMembers_parse sample_cross)

lemma sample_not_spam: "\<not> detectSpamPatterns sampleData"
  by (simp add: spam_defs sampleData_def char_class_defs)

lemma sample_clientIp: "clientIp sampleRequest = ''10.0.0.1''"
  by (simp add: clientIp_def sampleRequest_def)

lemma sample_rate:
  "checkRateLimit (sampleEnv\<lparr>kvSetGuestUp := b\<rparr>) ''10.0.0.1'' emptyState = (True, sampleRated)"
  by (simp add: checkRateLimit_def sampleEnv_def emptyState_def sampleRated_def store_defs
      windowMs_def Let_def)

subsection \<open>The submission endpoint, step by step\<close>

lemma POST_accepted:
  assumes "checkRateLimit e (clientIp req) st = (True, st1)"
    and "reqBody req = Some payload"
    and "RegistrationSchema_parse pf (nowValidate e) payload = Inr d"
    and "\<not> detectSpamPatterns d"
  shows "POST pf e req st =
           (Response 201 (SuccessBody (randomUUID e) ''Registration submitted successfully''),
            kvSet (kvSetGuestUp e) (guestKey (randomUUID e))
              (Sub \<lparr>sid = randomUUID e, createdAt = nowCreated e, sdata = d,
                    smeta = \<lparr>userAgent = orElse (hUserAgent req) [], ip = clientIp req,
                              timestamp = isoNow e\<rparr>\<rparr>)
              (Some expirationSeconds) st1)"
  using assms by (simp add: POST_def Let_def)

lemma sample_POST:
  "POST samplePlatform (sampleEnv\<lparr>kvSetGuestUp := b\<rparr>) sampleRequest emptyState =
     (Response 201 (SuccessBody (randomUUID sampleEnv) ''Registration submitted successfully''),
      kvSet b (guestKey (randomUUID sampleEnv)) (Sub sampleSubmission) (Some expirationSeconds)
        sampleRated)"
proof -
  let ?e = "sampleEnv\<lparr>kvSetGuestUp := b\<rparr>"
  have "POST samplePlatform ?e sampleRequest emptyState =
     (Response 201 (SuccessBody (randomUUID ?e) ''Registration submitted successfully''),
      kvSet (kvSetGuestUp ?e) (guestKey (randomUUID ?e))
        (Sub \<lparr>sid = randomUUID ?e, createdAt = nowCreated ?e, sdata = sampleData,
              smeta = \<lparr>userAgent = orElse (hUserAgent sampleRequest) [],
                        ip = clientIp sampleRequest, timestamp = isoNow ?e\<rparr>\<rparr>)
        (Some expirationSeconds) sampleRated)"
  proof (rule POST_accepted [where payload = "JObj sampleMembers"])
    show "checkRateLimit ?e (clientIp sampleRequest) emptyState = (True, sampleRated)"
      by (simp add: sample_clientIp sample_rate)
    show "reqBody sampleRequest = Some (JObj sampleMembers)"
      by (simp add: sampleRequest_def)
    show "RegistrationSchema_parse samplePlatform (nowValidate ?e) (JObj sampleMembers)
            = Inr sampleData"
      by (simp add: sampleEnv_def sample_parse)
    show "\<not> detectSpamPatterns sampleData"
      by (rule sample_not_spam)
  qed
  then show ?thesis
    unfolding sample_clientIp
    by (simp add: sampleEnv_def sampleSubmission_def sampleRequest_def orElse_def)
qed

subsection \<open>Retention\<close>

text \<open>
  C1. The claim: every successful submission is persisted with a retention expiry of
  seven years attached at write time. On the code the expiry handed to \<^verbatim>\<open>kvSet\<close> is
  dropped: after the sample request is answered 201 by a reachable store, the record is
  under its key with no expiry at all.
\<close>

theorem expiry_dropped_on_write:
  "status (fst (POST samplePlatform sampleEnv sampleRequest emptyState)) = 201
   \<and> kv (snd (POST samplePlatform sampleEnv sampleRequest emptyState))
        (guestKey (randomUUID sampleEnv)) = Some (Sub sampleSubmission, None)"
  using sample_POST [of True] by (simp add: sampleEnv_def store_defs)

subsection \<open>Store failures during persistence\<close>

text \<open>
  C2, as stated: a failing store write while persisting a validated, non-spam submission
  gives the response 500. It does not: on the sample request, with the write of the
  record failing, the answer is 201.
\<close>

theorem store_failure_answered_201:
  "kv_set False (guestKey (randomUUID sampleEnv)) (Sub sampleSubmission) None (kv sampleRated)
     = None
   \<and> status (fst (POST samplePlatform (sampleEnv\<lparr>kvSetGuestUp := False\<rparr>) sampleRequest
                  emptyState)) = 201"
  using sample_POST [of False] by (simp add: kv_set_def)

text \<open>
  C2, amended: when the store write fails while persisting a validated, non-spam
  submission, \<^verbatim>\<open>kvSet\<close> absorbs the failure by writing the record to the in-memory
  fallback, and the submission is answered 201 with the new identifier.
\<close>

theorem store_failure_absorbed:
  assumes "checkRateLimit e (clientIp req) st = (True, st1)"
    and "reqBody req = Some payload"
    and "RegistrationSchema_parse pf (nowValidate e) payload = Inr d"
    and "\<not> detectSpamPatterns d"
    and "\<not> kvSetGuestUp e"
  shows "\<exists>sub. sid sub = randomUUID e \<and> sdata sub = d \<and>
           POST pf e req st =
             (Response 201 (SuccessBody (randomUUID e) ''Registration submitted successfully''),
              st1\<lparr>memory := (memory st1)(guestKey (randomUUID e) \<mapsto> Sub sub)\<rparr>)"
proof -
  let ?sub = "\<lparr>sid = randomUUID e, createdAt = nowCreated e, sdata = d,
               smeta = \<lparr>userAgent = orElse (hUserAgent req) [], ip = clientIp req,
                         timestamp = isoNow e\<rparr>\<rparr>"
  have "POST pf e req st =
          (Response 201 (SuccessBody (randomUUID e) ''Registration submitted successfully''),
           st1\<lparr>memory := (memory st1)(guestKey (randomUUID e) \<mapsto> Sub ?sub)\<rparr>)"
    using POST_accepted [OF assms(1-4)] assms(5) by (simp add: kvSet_def kv_set_def)
  then show ?thesis
    by (intro exI [of _ ?sub]) simp
qed

theorem store_failure_absorbed_witness:
  "\<exists>sub. sid sub = randomUUID (sampleEnv\<lparr>kvSetGuestUp := False\<rparr>) \<and> sdata sub = sampleData \<and>
     POST samplePlatform (sampleEnv\<lparr>kvSetGuestUp := False\<rparr>) sampleRequest emptyState =
       (Response 201 (SuccessBody (randomUUID (sampleEnv\<lparr>kvSetGuestUp := False\<rparr>))
          ''Registration submitted successfully''),
        sampleRated\<lparr>memory := (memory sampleRated)
          (guestKey (randomUUID (sampleEnv\<lparr>kvSetGuestUp := False\<rparr>)) \<mapsto> Sub sub)\<rparr>)"
proof (rule store_failure_absorbed [where payload = "JObj sampleMembers"])
  show "checkRateLimit (sampleEnv\<lparr>kvSetGuestUp := False\<rparr>) (clientIp sampleRequest) emptyState
          = (True, sampleRated)"
    by (simp add: sample_clientIp sample_rate)
  show "reqBody sampleRequest = Some (JObj sampleMembers)"
    by (simp add: sampleRequest_def)
  show "RegistrationSchema_parse samplePlatform (nowValidate (sampleEnv\<lparr>kvSetGuestUp := False\<rparr>))
          (JObj sampleMembers) = Inr sampleData"
    by (simp add: sampleEnv_def sample_parse)
  show "\<not> detectSpamPatterns sampleData"
    by (rule sample_not_spam)
  show "\<not> kvSetGuestUp (sampleEnv\<lparr>kvSetGuestUp := False\<rparr>)"
    by simp
qed

subsection \<open>The rate limiter\<close>

lemma guestKey_neq_rateKey: "guestKey a \<noteq> rateKey b"
  by (simp add: guestKey_def rateKey_def)

lemma kvGet_kvSet_other: "k \<noteq> k' \<Longrightarrow> kvGet up k (kvSet b k' v opts st) = kvGet up k st"
  by (auto simp: store_defs split: option.splits)

lemma kvGet_kvSet_same: "kvGet True k (kvSet True k v opts st) = Some v"
  by (simp add: store_defs)

lemma checkRateLimit_other:
  "k \<noteq> rateKey i \<Longrightarrow> kvGet up k (snd (checkRateLimit e i st)) = kvGet up k st"
  by (simp add: checkRateLimit_def Let_def kvGet_kvSet_other split: option.splits)

lemma POST_rate_lookup:
  "kvGet up (rateKey i) (snd (POST pf e req st))
     = kvGet up (rateKey i) (snd (checkRateLimit e (clientIp req) st))"
  by (simp add: POST_def Let_def kvGet_kvSet_other guestKey_neq_rateKey [symmetric]
      split: prod.splits option.splits sum.splits)

lemma POST_status:
  "status (fst (POST pf e req st)) = 429 \<longleftrightarrow> \<not> fst (checkRateLimit e (clientIp req) st)"
  by (simp add: POST_def Let_def split: prod.splits option.splits sum.splits)

lemma rate_fresh:
  assumes "kvGetUp e" "kvSetRateUp e"
    and "kvGet True (rateKey i) st = None
         \<or> (\<exists>r. kvGet True (rateKey i) st = Some r \<and> js_gt (nowRate e) (recReset r))"
  shows "fst (checkRateLimit e i st)"
    and "kvGet True (rateKey i) (snd (checkRateLimit e i st))
           = Some (RateRec (Some 1) (Some (nowRate e + windowMs)))"
  using assms by (auto simp: checkRateLimit_def Let_def kvGet_kvSet_same)

lemma rate_live:
  assumes "kvGetUp e" "kvSetRateUp e"
    and "kvGet True (rateKey i) st = Some (RateRec (Some c) (Some reset))"
    and "nowRate e \<le> reset"
  shows "fst (checkRateLimit e i st) \<longleftrightarrow> c < maxRequests"
    and "kvGet True (rateKey i) (snd (checkRateLimit e i st))
           = Some (RateRec (Some (if c < maxRequests then c + 1 else c)) (Some reset))"
  using assms by (auto simp: checkRateLimit_def Let_def kvGet_kvSet_same js_gt_def js_ge_def)

lemma submitAll_Cons:
  "submitAll pf ((e, req) # rs) st
     = (fst (POST pf e req st) # fst (submitAll pf rs (snd (POST pf e req st))),
        snd (submitAll pf rs (snd (POST pf e req st))))"
  by (simp split: prod.splits)

declare submitAll.simps(2) [simp del]

lemma rateKey_inject: "rateKey a = rateKey b \<longleftrightarrow> a = b"
  by (simp add: rateKey_def)

lemma POST_other_client:
  "clientIp req \<noteq> i \<Longrightarrow>
     kvGet up (rateKey i) (snd (POST pf e req st)) = kvGet up (rateKey i) st"
  by (simp add: POST_rate_lookup checkRateLimit_other rateKey_inject)

lemma answersTo_Nil: "answersTo i pf [] st = []"
  by (simp add: answersTo_def)

lemma answersTo_Cons:
  "answersTo i pf ((e, req) # rs) st =
     (if clientIp req = i then [fst (POST pf e req st)] else [])
     @ answersTo i pf rs (snd (POST pf e req st))"
  by (simp add: answersTo_def submitAll_Cons)

lemma submitAll_append:
  "submitAll pf (as @ bs) st =
     (fst (submitAll pf as st) @ fst (submitAll pf bs (snd (submitAll pf as st))),
      snd (submitAll pf bs (snd (submitAll pf as st))))"
proof (induction as arbitrary: st)
  case Nil
  then show ?case by simp
next
  case (Cons a as)
  obtain e req where a: "a = (e, req)" by (cases a)
  show ?case unfolding a by (simp add: submitAll_Cons Cons.IH)
qed

lemma answersTo_append:
  "answersTo i pf (as @ bs) st =
     answersTo i pf as st @ answersTo i pf bs (snd (submitAll pf as st))"
proof (induction as arbitrary: st)
  case Nil
  then show ?case by (simp add: answersTo_Nil)
next
  case (Cons a as)
  obtain e req where a: "a = (e, req)" by (cases a)
  show ?case unfolding a by (simp add: answersTo_Cons submitAll_Cons Cons.IH)
qed

text \<open>The requests of other clients get no answer for \<open>i\<close> and leave its counter alone.\<close>

lemma others_frame:
  assumes "\<forall>(e, req) \<in> set rs. clientIp req \<noteq> i"
  shows "answersTo i pf rs st = []
         \<and> kvGet up (rateKey i) (snd (submitAll pf rs st)) = kvGet up (rateKey i) st"
  using assms
proof (induction rs arbitrary: st)
  case Nil
  then show ?case by (simp add: answersTo_Nil)
next
  case (Cons a rs)
  obtain e req where a: "a = (e, req)" by (cases a)
  from Cons.prems a have other: "clientIp req \<noteq> i"
    and rest: "\<forall>(e, req) \<in> set rs. clientIp req \<noteq> i"
    by auto
  from Cons.IH [OF rest, of "snd (POST pf e req st)"] other
  show ?case unfolding a by (simp add: answersTo_Cons submitAll_Cons POST_other_client)
qed

text \<open>
  Inside a live window with counter \<open>c\<close>, whatever other clients send in between, the
  \<open>m\<close>-th further attempt of \<open>i\<close> is refused exactly when \<open>c + m\<close> has reached the
  ceiling, and the counter stops at the ceiling.
\<close>

lemma answers_live:
  assumes "\<forall>(e, req) \<in> set rs. clientIp req = i \<longrightarrow> storeUp e \<and> nowRate e \<le> reset"
    and "kvGet True (rateKey i) st = Some (RateRec (Some c) (Some reset))"
    and "0 \<le> c" "c \<le> maxRequests"
  shows "(\<forall>m < length (answersTo i pf rs st).
            status (answersTo i pf rs st ! m) = 429 \<longleftrightarrow> maxRequests \<le> c + int m)
       \<and> kvGet True (rateKey i) (snd (submitAll pf rs st))
           = Some (RateRec (Some (min maxRequests (c + int (length (answersTo i pf rs st)))))
                     (Some reset))"
  using assms
proof (induction rs arbitrary: st c)
  case Nil
  then show ?case by (simp add: answersTo_Nil)
next
  case (Cons a rs)
  obtain e req where a: "a = (e, req)" by (cases a)
  let ?st1 = "snd (POST pf e req st)"
  have rest: "\<forall>(e, req) \<in> set rs. clientIp req = i \<longrightarrow> storeUp e \<and> nowRate e \<le> reset"
    using Cons.prems(1) by simp
  show ?case
  proof (cases "clientIp req = i")
    case False
    have look: "kvGet True (rateKey i) ?st1 = Some (RateRec (Some c) (Some reset))"
      using False Cons.prems(2) by (simp add: POST_other_client)
    from Cons.IH [OF rest look Cons.prems(3,4)] False
    show ?thesis unfolding a by (simp add: answersTo_Cons submitAll_Cons)
  next
    case True
    from Cons.prems(1) a True have up: "kvGetUp e" "kvSetRateUp e" and t: "nowRate e \<le> reset"
      by (auto simp: storeUp_def)
    let ?c1 = "if c < maxRequests then c + 1 else c"
    have look: "kvGet True (rateKey i) ?st1 = Some (RateRec (Some ?c1) (Some reset))"
      using rate_live(2) [OF up Cons.prems(2) t] by (simp add: POST_rate_lookup True)
    have st: "status (fst (POST pf e req st)) = 429 \<longleftrightarrow> maxRequests \<le> c"
      using rate_live(1) [OF up Cons.prems(2) t] by (simp add: POST_status True not_less)
    have c1: "0 \<le> ?c1" "?c1 \<le> maxRequests" using Cons.prems(3,4) by auto
    note IH = Cons.IH [OF rest look c1]
    let ?tail = "answersTo i pf rs ?st1"
    have unfold: "answersTo i pf (a # rs) st = fst (POST pf e req st) # ?tail"
      "snd (submitAll pf (a # rs) st) = snd (submitAll pf rs ?st1)"
      unfolding a using True by (simp_all add: answersTo_Cons submitAll_Cons)
    have m: "min maxRequests (?c1 + int (length ?tail))
               = min maxRequests (c + int (length (fst (POST pf e req st) # ?tail)))"
      using Cons.prems(3,4) by (auto simp: min_def)
    show ?thesis
    proof (intro conjI allI impI)
      fix m assume len: "m < length (answersTo i pf (a # rs) st)"
      show "status (answersTo i pf (a # rs) st ! m) = 429 \<longleftrightarrow> maxRequests \<le> c + int m"
      proof (cases m)
        case 0
        then show ?thesis using st by (simp add: unfold)
      next
        case (Suc k)
        then have "k < length ?tail" using len by (simp add: unfold)
        with IH have "status (?tail ! k) = 429 \<longleftrightarrow> maxRequests \<le> ?c1 + int k" by blast
        then show ?thesis using Suc Cons.prems(3,4) by (auto simp: unfold)
      qed
    next
      show "kvGet True (rateKey i) (snd (submitAll pf (a # rs) st))
           = Some (RateRec (Some (min maxRequests (c + int (length (answersTo i pf (a # rs) st)))))
                     (Some reset))"
        using IH m by (simp add: unfold)
    qed
  qed
qed

text \<open>
  C4. For every client identity \<open>i\<close>, in any run of requests of any clients: when the
  window of \<open>i\<close> is fresh at the start (no counter, or one whose reset time has passed),
  the store answers on the requests of \<open>i\<close>, and the attempts of \<open>i\<close> are made until the
  reset time of the window its first attempt opens, then the first three attempts of \<open>i\<close>
  pass the limiter and its fourth and every later one is answered 429. The requests of
  other identities, before or in between, do not count. An attempt of \<open>i\<close> after the reset
  time passes again and leaves a counter of 1 with a new reset time, fifteen minutes after
  it.
\<close>

theorem rate_limit_window:
  assumes "kvGet True (rateKey i) st = None
           \<or> (\<exists>r. kvGet True (rateKey i) st = Some r \<and> js_gt (nowRate e0) (recReset r))"
    and "\<forall>(e, req) \<in> set pre. clientIp req \<noteq> i"
    and "storeUp e0" and "clientIp req0 = i"
    and "\<forall>(e, req) \<in> set rs.
           clientIp req = i \<longrightarrow> storeUp e \<and> nowRate e \<le> nowRate e0 + windowMs"
    and "storeUp e'" and "clientIp req' = i" and "nowRate e' > nowRate e0 + windowMs"
  shows "(\<forall>m < length (answersTo i pf (pre @ (e0, req0) # rs) st).
            status (answersTo i pf (pre @ (e0, req0) # rs) st ! m) = 429 \<longleftrightarrow> 3 \<le> m)
       \<and> status (fst (POST pf e' req' (snd (submitAll pf (pre @ (e0, req0) # rs) st)))) \<noteq> 429
       \<and> kvGet True (rateKey i)
            (snd (POST pf e' req' (snd (submitAll pf (pre @ (e0, req0) # rs) st))))
           = Some (RateRec (Some 1) (Some (nowRate e' + 15 * 60 * 1000)))"
proof -
  let ?st0 = "snd (submitAll pf pre st)"
  let ?st1 = "snd (POST pf e0 req0 ?st0)"
  let ?reset = "nowRate e0 + windowMs"
  let ?tail = "answersTo i pf rs ?st1"
  note frame = others_frame [OF assms(2), of pf st True]
  have fresh: "kvGet True (rateKey i) ?st0 = None
           \<or> (\<exists>r. kvGet True (rateKey i) ?st0 = Some r \<and> js_gt (nowRate e0) (recReset r))"
    using assms(1) frame by simp
  have up0: "kvGetUp e0" "kvSetRateUp e0" using assms(3) by (simp_all add: storeUp_def)
  have first: "status (fst (POST pf e0 req0 ?st0)) \<noteq> 429"
    using rate_fresh(1) [OF up0 fresh] by (simp add: POST_status assms(4))
  have look: "kvGet True (rateKey i) ?st1 = Some (RateRec (Some 1) (Some ?reset))"
    using rate_fresh(2) [OF up0 fresh] by (simp add: POST_rate_lookup assms(4))
  have live: "(\<forall>m < length ?tail. status (?tail ! m) = 429 \<longleftrightarrow> maxRequests \<le> 1 + int m)
       \<and> kvGet True (rateKey i) (snd (submitAll pf rs ?st1))
           = Some (RateRec (Some (min maxRequests (1 + int (length ?tail)))) (Some ?reset))"
    by (rule answers_live [OF assms(5) look]) (simp_all add: maxRequests_def)
  have answers: "answersTo i pf (pre @ (e0, req0) # rs) st = fst (POST pf e0 req0 ?st0) # ?tail"
    using frame by (simp add: answersTo_append answersTo_Cons assms(4))
  have final: "snd (submitAll pf (pre @ (e0, req0) # rs) st) = snd (submitAll pf rs ?st1)"
    by (simp add: submitAll_append submitAll_Cons)
  have part1: "\<forall>m < length (answersTo i pf (pre @ (e0, req0) # rs) st).
                 status (answersTo i pf (pre @ (e0, req0) # rs) st ! m) = 429 \<longleftrightarrow> 3 \<le> m"
  proof (intro allI impI)
    fix m assume len: "m < length (answersTo i pf (pre @ (e0, req0) # rs) st)"
    show "status (answersTo i pf (pre @ (e0, req0) # rs) st ! m) = 429 \<longleftrightarrow> 3 \<le> m"
    proof (cases m)
      case 0
      then show ?thesis using first by (simp add: answers)
    next
      case (Suc k)
      then have "k < length ?tail" using len by (simp add: answers)
      with live have "status (?tail ! k) = 429 \<longleftrightarrow> maxRequests \<le> 1 + int k" by blast
      then show ?thesis using Suc by (auto simp: answers maxRequests_def)
    qed
  qed
  let ?st2 = "snd (submitAll pf (pre @ (e0, req0) # rs) st)"
  have up': "kvGetUp e'" "kvSetRateUp e'" using assms(6) by (simp_all add: storeUp_def)
  have expired: "kvGet True (rateKey i) ?st2 = None
      \<or> (\<exists>r. kvGet True (rateKey i) ?st2 = Some r \<and> js_gt (nowRate e') (recReset r))"
    using live assms(8) by (simp add: final js_gt_def)
  have part2: "status (fst (POST pf e' req' ?st2)) \<noteq> 429"
    using rate_fresh(1) [OF up' expired] by (simp add: POST_status assms(7))
  have part3: "kvGet True (rateKey i) (snd (POST pf e' req' ?st2))
                 = Some (RateRec (Some 1) (Some (nowRate e' + 15 * 60 * 1000)))"
    using rate_fresh(2) [OF up' expired] by (simp add: POST_rate_lookup assms(7) windowMs_def)
  from part1 part2 part3 show ?thesis by blast
qed

lemma other_clientIp: "clientIp otherRequest = ''10.0.0.2''"
  by (simp add: clientIp_def otherRequest_def sampleRequest_def)

theorem rate_limit_window_witness:
  "status (answersTo ''10.0.0.1'' samplePlatform
       ([(sampleEnv, otherRequest)] @ (sampleEnv, sampleRequest) #
        [(sampleEnv\<lparr>nowRate := 2000\<rparr>, sampleRequest), (sampleEnv\<lparr>nowRate := 2500\<rparr>, otherRequest),
         (sampleEnv\<lparr>nowRate := 3000\<rparr>, sampleRequest),
         (sampleEnv\<lparr>nowRate := 901000\<rparr>, sampleRequest)]) emptyState ! 2) \<noteq> 429
   \<and> status (answersTo ''10.0.0.1'' samplePlatform
       ([(sampleEnv, otherRequest)] @ (sampleEnv, sampleRequest) #
        [(sampleEnv\<lparr>nowRate := 2000\<rparr>, sampleRequest), (sampleEnv\<lparr>nowRate := 2500\<rparr>, otherRequest),
         (sampleEnv\<lparr>nowRate := 3000\<rparr>, sampleRequest),
         (sampleEnv\<lparr>nowRate := 901000\<rparr>, sampleRequest)]) emptyState ! 3) = 429
   \<and> status (answersTo ''10.0.0.2'' samplePlatform
       ([(sampleEnv, sampleRequest), (sampleEnv\<lparr>nowRate := 2000\<rparr>, sampleRequest),
         (sampleEnv\<lparr>nowRate := 3000\<rparr>, sampleRequest)] @ (sampleEnv\<lparr>nowRate := 4000\<rparr>, otherRequest) # [])
       emptyState ! 0) \<noteq> 429"
proof -
  let ?rs = "[(sampleEnv\<lparr>nowRate := 2000\<rparr>, sampleRequest),
              (sampleEnv\<lparr>nowRate := 2500\<rparr>, otherRequest),
              (sampleEnv\<lparr>nowRate := 3000\<rparr>, sampleRequest),
              (sampleEnv\<lparr>nowRate := 901000\<rparr>, sampleRequest)]"
  let ?pre = "[(sampleEnv, otherRequest)]"
  let ?three = "[(sampleEnv, sampleRequest), (sampleEnv\<lparr>nowRate := 2000\<rparr>, sampleRequest),
                 (sampleEnv\<lparr>nowRate := 3000\<rparr>, sampleRequest)]"
  have up: "storeUp (sampleEnv\<lparr>nowRate := t\<rparr>)" "storeUp sampleEnv" for t
    by (simp_all add: storeUp_def sampleEnv_def)
  have a1: "kvGet True (rateKey ''10.0.0.1'') emptyState = None
            \<or> (\<exists>r. kvGet True (rateKey ''10.0.0.1'') emptyState = Some r
                    \<and> js_gt (nowRate sampleEnv) (recReset r))"
    by (simp add: store_defs emptyState_def)
  have a2: "\<forall>(e, req) \<in> set ?pre. clientIp req \<noteq> ''10.0.0.1''"
    by (simp add: other_clientIp)
  have a5: "\<forall>(e, req) \<in> set ?rs. clientIp req = ''10.0.0.1''
              \<longrightarrow> storeUp e \<and> nowRate e \<le> nowRate sampleEnv + windowMs"
    by (simp add: up) (simp add: sampleEnv_def windowMs_def)
  have a8: "nowRate (sampleEnv\<lparr>nowRate := 901001\<rparr>) > nowRate sampleEnv + windowMs"
    by (simp add: sampleEnv_def windowMs_def)
  note A = rate_limit_window [OF a1 a2 up(2) sample_clientIp a5 up(1) sample_clientIp a8,
      of samplePlatform]
  have lenA: "length (answersTo ''10.0.0.1'' samplePlatform
                (?pre @ (sampleEnv, sampleRequest) # ?rs) emptyState) = 4"
    by (simp add: answersTo_Cons answersTo_Nil sample_clientIp other_clientIp)
  have b1: "kvGet True (rateKey ''10.0.0.2'') emptyState = None
            \<or> (\<exists>r. kvGet True (rateKey ''10.0.0.2'') emptyState = Some r
                    \<and> js_gt (nowRate (sampleEnv\<lparr>nowRate := 4000\<rparr>)) (recReset r))"
    by (simp add: store_defs emptyState_def)
  have b2: "\<forall>(e, req) \<in> set ?three. clientIp req \<noteq> ''10.0.0.2''"
    by (simp add: sample_clientIp)
  have b5: "\<forall>(e, req) \<in> set ([] :: (env \<times> request) list). clientIp req = ''10.0.0.2''
              \<longrightarrow> storeUp e \<and> nowRate e \<le> nowRate (sampleEnv\<lparr>nowRate := 4000\<rparr>) + windowMs"
    by simp
  have b8: "nowRate (sampleEnv\<lparr>nowRate := 905001\<rparr>)
              > nowRate (sampleEnv\<lparr>nowRate := 4000\<rparr>) + windowMs"
    by (simp add: windowMs_def)
  note B = rate_limit_window [OF b1 b2 up(1) other_clientIp b5 up(1) other_clientIp b8,
      of samplePlatform]
  have lenB: "length (answersTo ''10.0.0.2'' samplePlatform
                (?three @ (sampleEnv\<lparr>nowRate := 4000\<rparr>, otherRequest) # []) emptyState) = 1"
    by (simp add: answersTo_Cons answersTo_Nil sample_clientIp other_clientIp)
  from A lenA have "status (answersTo ''10.0.0.1'' samplePlatform
      (?pre @ (sampleEnv, sampleRequest) # ?rs) emptyState ! 2) \<noteq> 429"
    "status (answersTo ''10.0.0.1'' samplePlatform
      (?pre @ (sampleEnv, sampleRequest) # ?rs) emptyState ! 3) = 429"
    by simp_all
  moreover from B lenB have "status (answersTo ''10.0.0.2'' samplePlatform
      (?three @ (sampleEnv\<lparr>nowRate := 4000\<rparr>, otherRequest) # []) emptyState ! 0) \<noteq> 429"
    by simp
  ultimately show ?thesis by blast
qed

subsection \<open>Malformed identifiers\<close>

lemma not_a_uuid: "\<not> isValidUUID ''not-a-uuid''"
  by (simp add: isValidUUID_def isHexDigit_def eval_nat_numeral)

text \<open>
  C10, as stated: a lookup with a malformed identifier is a not-found case, never a
  format-validation case. The document endpoint answers \<^verbatim>\<open>"not-a-uuid"\<close> with 400 and
  the message of a format error.
\<close>

theorem malformed_id_render_answers_400:
  "\<not> isValidUUID ''not-a-uuid''
   \<and> GET_pdf sampleLib True 0 ''not-a-uuid'' emptyState = JsonError 400 ''Invalid ID format''"
  using not_a_uuid by (simp add: GET_pdf_def)

text \<open>
  C10, amended: for every identifier that does not match the canonical shape, the
  success view is the not-found view, and the document endpoint answers 400 "Invalid ID
  format", a format-validation error, whatever the store holds.
\<close>

theorem malformed_id_lookup:
  assumes "\<not> isValidUUID ident"
  shows "SuccessPage up ident st = NotFoundView
         \<and> GET_pdf lib up' genNow ident st = JsonError 400 ''Invalid ID format''"
  using assms by (simp add: SuccessPage_def GET_pdf_def)

theorem malformed_id_lookup_witness:
  "SuccessPage True ''not-a-uuid'' emptyState = NotFoundView
   \<and> GET_pdf sampleLib True 0 ''not-a-uuid'' emptyState = JsonError 400 ''Invalid ID format''"
  using malformed_id_lookup [OF not_a_uuid] by simp

subsection \<open>The document fields\<close>

lemma zString_refined_ok:
  "fst (zString key (\<lambda>s. chk (n \<le> length s) key m1) (\<lambda>s. s) (\<lambda>s. chk (P s) key m2) v) = []
     \<longleftrightarrow> (\<exists>s. v = Some (JStr s) \<and> n \<le> length s \<and> P s)"
  by (auto simp: zString_def chk_def invalidType_def mkIssue_def split: option.splits json.splits)

lemma zString_refined_field:
  "x \<in> set (fst (zString key (\<lambda>s. chk (n \<le> length s) key m1) (\<lambda>s. s) (\<lambda>s. chk (P s) key m2) v))
     \<Longrightarrow> field x = key"
  by (auto simp: zString_def chk_def invalidType_def mkIssue_def
      split: option.splits json.splits if_splits)

lemma imageOk_iff:
  "imageOk maxSize s \<longleftrightarrow>
     startsWith s ''data:image/''
     \<and> (\<exists>b. nth_js (split_js CHR '','' s) 1 = Some b \<and> b \<noteq> []
              \<and> int (length b) * 3 \<le> 4 * maxSize)"
  by (auto simp: imageOk_def split: option.splits)

text \<open>
  C6, as stated: a document field is accepted only if its payload can be decoded. The
  schema never decodes: a selfie whose payload is outside the base64 alphabet (the sample
  \<^verbatim>\<open>atob\<close> throws on it) raises no issue.
\<close>

theorem undecodable_image_accepted:
  "atob sampleLib ''!!!!'' = None
   \<and> fst (fSelfie (Some (JStr ''data:image/png;base64,!!!!''))) = []"
  by (simp add: sampleLib_def isBase64Char_def member_defs pattern_defs char_class_defs)

text \<open>
  C6, amended: each of the three document fields is accepted exactly when it is a string
  of ten or more characters that begins with the image-data declaration and has a
  non-empty payload whose length times 3/4 is within the ceiling of the field (5MB for
  selfie and idImage, that is at most 6990506 payload characters; 1MB for signature, at
  most 1398101); the payload is not decoded. Whatever is refused (absence, a missing
  payload, oversize) is reported on that same field.
\<close>

theorem document_fields_accepted:
  "(fst (fSelfie v) = [] \<longleftrightarrow> acceptedImage 6990506 v)
   \<and> (fst (fIdImage v) = [] \<longleftrightarrow> acceptedImage 6990506 v)
   \<and> (fst (fSignature v) = [] \<longleftrightarrow> acceptedImage 1398101 v)
   \<and> (\<forall>x \<in> set (fst (fSelfie v)). field x = ''selfie'')
   \<and> (\<forall>x \<in> set (fst (fIdImage v)). field x = ''idImage'')
   \<and> (\<forall>x \<in> set (fst (fSignature v)). field x = ''signature'')"
proof -
  have a: "int (length b) * 3 \<le> 4 * maxImage \<longleftrightarrow> length b \<le> 6990506" for b :: string
    by (simp add: maxImage_def) arith
  have b: "int (length b) * 3 \<le> 4 * maxSignature \<longleftrightarrow> length b \<le> 1398101" for b :: string
    by (simp add: maxSignature_def) arith
  have 1: "fst (fSelfie v) = [] \<longleftrightarrow> acceptedImage 6990506 v"
    unfolding fSelfie_def zString_refined_ok imageOk_iff acceptedImage_def a by blast
  have 2: "fst (fIdImage v) = [] \<longleftrightarrow> acceptedImage 6990506 v"
    unfolding fIdImage_def zString_refined_ok imageOk_iff acceptedImage_def a by blast
  have 3: "fst (fSignature v) = [] \<longleftrightarrow> acceptedImage 1398101 v"
    unfolding fSignature_def zString_refined_ok imageOk_iff acceptedImage_def b by blast
  have 4: "\<forall>x \<in> set (fst (fSelfie v)). field x = ''selfie''"
    unfolding fSelfie_def by (blast dest: zString_refined_field)
  have 5: "\<forall>x \<in> set (fst (fIdImage v)). field x = ''idImage''"
    unfolding fIdImage_def by (blast dest: zString_refined_field)
  have 6: "\<forall>x \<in> set (fst (fSignature v)). field x = ''signature''"
    unfolding fSignature_def by (blast dest: zString_refined_field)
  from 1 2 3 4 5 6 show ?thesis by blast
qed

theorem document_fields_accepted_witness:
  "fst (fSignature (Some (JStr ''data:image/png;base64,!!!!''))) = []
   \<and> field (hd (fst (fSelfie None))) = ''selfie''"
proof -
  have acc: "acceptedImage 1398101 (Some (JStr ''data:image/png;base64,!!!!''))"
    unfolding acceptedImage_def
    by (intro exI [of _ "''data:image/png;base64,!!!!''"] exI [of _ "''!!!!''"])
       (simp add: startsWith_def nth_js_def)
  have mem: "hd (fst (fSelfie None)) \<in> set (fst (fSelfie None))"
    by (simp add: fSelfie_def zString_def)
  from document_fields_accepted [of "Some (JStr ''data:image/png;base64,!!!!'')"] acc
  have 1: "fst (fSignature (Some (JStr ''data:image/png;base64,!!!!''))) = []" by blast
  from document_fields_accepted [of None] mem
  have 2: "field (hd (fst (fSelfie None))) = ''selfie''" by blast
  from 1 2 show ?thesis by blast
qed

subsection \<open>The structure of a parse\<close>

lemma parseMembers_issues: "fst (parseMembers pf now ms) = concat (memberIssues pf now ms)"
  by (simp add: parseMembers_def memberIssues_def Let_def)

lemma zString_value: "snd (zString key cs out rs (Some (JStr s))) = Some (out s)"
  by (simp add: zString_def)

lemma parseMembers_dates:
  assumes "snd (parseMembers pf now ms) = Some d"
    and "getMember ms ''checkIn'' = Some (JStr a)"
    and "getMember ms ''checkOut'' = Some (JStr b)"
  shows "checkIn d = a \<and> checkOut d = b"
  using assms
  by (auto simp: parseMembers_def Let_def bind_eq_Some_conv fCheckIn_def fCheckOut_def zString_value)

lemma ceil_days: "(\<lceil>(of_int x :: rat) / (1000 * 60 * 60 * 24)\<rceil> \<le> 365) \<longleftrightarrow> x \<le> 365 * (24 * 60 * 60 * 1000)"
proof -
  have "(\<lceil>(of_int x :: rat) / 86400000\<rceil> \<le> 365) \<longleftrightarrow> (of_int x :: rat) / 86400000 \<le> of_int 365"
    by (rule ceiling_le_iff)
  also have "\<dots> \<longleftrightarrow> (of_int x :: rat) \<le> 365 * 86400000"
    by (simp add: pos_divide_le_eq)
  also have "\<dots> \<longleftrightarrow> (of_int x :: rat) \<le> of_int (365 * 86400000)" by simp
  also have "\<dots> \<longleftrightarrow> x \<le> 365 * 86400000" by (rule of_int_le_iff)
  finally show ?thesis by simp
qed

lemma checkOutAfter_iff:
  "checkOutAfterCheckIn pf d \<longleftrightarrow> \<not> notStrictlyAfter pf (checkIn d) (checkOut d)"
  by (auto simp: checkOutAfterCheckIn_def notStrictlyAfter_def split: option.splits)

lemma stayAtMostYear_iff:
  "stayAtMostYear pf d \<longleftrightarrow> \<not> exceedsYear pf (checkIn d) (checkOut d)"
  by (auto simp: stayAtMostYear_def exceedsYear_def Let_def ceil_days simp del: of_int_abs split: option.splits)

lemma checkIn_issue:
  assumes "getMember ms ''checkIn'' = Some (JStr a)" and "\<not> checkInFuture pf now a"
  shows "mkIssue ''checkIn'' ''Check-in date must be in the future'' \<in> set (fst (parseMembers pf now ms))"
  using assms by (simp add: parseMembers_issues memberIssues_def fCheckIn_def zString_def chk_def)

lemma parse_object:
  "RegistrationSchema_parse pf now (JObj ms) =
     (case snd (parseMembers pf now ms) of
        None \<Rightarrow> Inl (fst (parseMembers pf now ms))
      | Some d \<Rightarrow>
          if fst (parseMembers pf now ms) @ crossIssues pf d = [] then Inr d
          else Inl (fst (parseMembers pf now ms) @ crossIssues pf d))"
  by (simp add: RegistrationSchema_parse_def Let_def split: prod.splits option.splits)

lemma zString_abort: "snd (zString key cs out rs v) = None \<Longrightarrow> fst (zString key cs out rs v) \<noteq> []"
  by (auto simp: zString_def split: option.splits json.splits)

lemma zNumber_abort: "snd (zNumber key cs v) = None \<Longrightarrow> fst (zNumber key cs v) \<noteq> []"
  by (auto simp: zNumber_def split: option.splits json.splits)

lemma zLiteral_abort: "snd (zLiteralTrue key m v) = None \<Longrightarrow> fst (zLiteralTrue key m v) \<noteq> []"
  by (auto simp: zLiteralTrue_def split: option.splits json.splits bool.splits)

lemma member_abort:
  "snd (fFullName v) = None \<Longrightarrow> fst (fFullName v) \<noteq> []"
  "snd (fIdOrPassport v) = None \<Longrightarrow> fst (fIdOrPassport v) \<noteq> []"
  "snd (fNationality v) = None \<Longrightarrow> fst (fNationality v) \<noteq> []"
  "snd (fResidenceStatus v) = None \<Longrightarrow> fst (fResidenceStatus v) \<noteq> []"
  "snd (fHomeAddress v) = None \<Longrightarrow> fst (fHomeAddress v) \<noteq> []"
  "snd (fPhone v) = None \<Longrightarrow> fst (fPhone v) \<noteq> []"
  "snd (fEmail pf v) = None \<Longrightarrow> fst (fEmail pf v) \<noteq> []"
  "snd (fCheckIn pf now v) = None \<Longrightarrow> fst (fCheckIn pf now v) \<noteq> []"
  "snd (fCheckOut v) = None \<Longrightarrow> fst (fCheckOut v) \<noteq> []"
  "snd (fGuests v) = None \<Longrightarrow> fst (fGuests v) \<noteq> []"
  "snd (fSelfie v) = None \<Longrightarrow> fst (fSelfie v) \<noteq> []"
  "snd (fIdImage v) = None \<Longrightarrow> fst (fIdImage v) \<noteq> []"
  "snd (fSignature v) = None \<Longrightarrow> fst (fSignature v) \<noteq> []"
  "snd (fPopiaConsent v) = None \<Longrightarrow> fst (fPopiaConsent v) \<noteq> []"
  "snd (fNonRefundAck v) = None \<Longrightarrow> fst (fNonRefundAck v) \<noteq> []"
  unfolding fFullName_def fIdOrPassport_def fNationality_def
    fResidenceStatus_def fHomeAddress_def fPhone_def fEmail_def fCheckIn_def fCheckOut_def
    fGuests_def fSelfie_def fIdImage_def fSignature_def fPopiaConsent_def fNonRefundAck_def
  by (erule zString_abort zNumber_abort zLiteral_abort)+

lemma parseMembers_abort:
  assumes "snd (parseMembers pf now ms) = None"
  shows "fst (parseMembers pf now ms) \<noteq> []"
proof
  assume e: "fst (parseMembers pf now ms) = []"
  then have z: "\<forall>l \<in> set (memberIssues pf now ms). l = []"
    by (simp add: parseMembers_issues)
  have s: "snd (fFullName (getMember ms ''fullName'')) \<noteq> None"
    "snd (fIdOrPassport (getMember ms ''idOrPassport'')) \<noteq> None"
    "snd (fNationality (getMember ms ''nationality'')) \<noteq> None"
    "snd (fResidenceStatus (getMember ms ''residenceStatus'')) \<noteq> None"
    "snd (fHomeAddress (getMember ms ''homeAddress'')) \<noteq> None"
    "snd (fPhone (getMember ms ''phone'')) \<noteq> None"
    "snd (fEmail pf (getMember ms ''email'')) \<noteq> None"
    "snd (fCheckIn pf now (getMember ms ''checkIn'')) \<noteq> None"
    "snd (fCheckOut (getMember ms ''checkOut'')) \<noteq> None"
    "snd (fGuests (getMember ms ''guests'')) \<noteq> None"
    "snd (fSelfie (getMember ms ''selfie'')) \<noteq> None"
    "snd (fIdImage (getMember ms ''idImage'')) \<noteq> None"
    "snd (fSignature (getMember ms ''signature'')) \<noteq> None"
    "snd (fPopiaConsent (getMember ms ''popiaConsent'')) \<noteq> None"
    "snd (fNonRefundAck (getMember ms ''nonRefundAck'')) \<noteq> None"
    using z member_abort by (simp_all add: memberIssues_def) blast+
  then have "snd (parseMembers pf now ms) \<noteq> None"
    by (auto simp: parseMembers_def Let_def)
  with assms show False by simp
qed

lemma parse_Inl_nonempty: "RegistrationSchema_parse pf now payload = Inl iss \<Longrightarrow> iss \<noteq> []"
proof (cases payload)
  case (JObj ms)
  assume p: "RegistrationSchema_parse pf now payload = Inl iss"
  show ?thesis
  proof (cases "snd (parseMembers pf now ms)")
    case None
    with p JObj parseMembers_abort [OF None] show ?thesis by (simp add: parse_object)
  next
    case (Some d)
    with p JObj show ?thesis by (auto simp: parse_object split: if_splits)
  qed
qed (auto simp: RegistrationSchema_parse_def)

lemmas sample_member_defs = setMember_def sampleMembers_def getMember_def samplePlatform_def
  earlyOutMembers_def pastInMembers_def earlyOutUntypedMembers_def longStayNoConsentMembers_def
  sloppyMembers_def

lemma sample_rate_any:
  "clientIp req = ''10.0.0.1'' \<Longrightarrow> checkRateLimit sampleEnv (clientIp req) emptyState = (True, sampleRated)"
  using sample_rate [of True] by (simp add: sampleEnv_def)

subsection \<open>The date rules\<close>

lemma earlyOutUntyped_parse:
  "parseMembers samplePlatform 1001 earlyOutUntypedMembers
     = ([mkIssue ''guests'' ''Expected number, received string''], None)"
  by (simp add: parseMembers_def sample_member_defs member_defs pattern_defs char_class_defs
      invalidType_def typeName_def)

text \<open>
  C5, as stated: a payload whose check-out is not after its check-in is rejected with
  the failure on the checkOut field. With the check-out a day before the check-in and the
  guest count sent as a string, the payload is rejected, but with the guest count's issue
  alone: no entry names checkOut.
\<close>

theorem early_checkout_not_reported:
  "getMember earlyOutUntypedMembers ''checkIn'' = Some (JStr ''2030-01-01'')
   \<and> getMember earlyOutUntypedMembers ''checkOut'' = Some (JStr ''2029-12-31'')
   \<and> notStrictlyAfter samplePlatform ''2030-01-01'' ''2029-12-31''
   \<and> RegistrationSchema_parse samplePlatform 1001 (JObj earlyOutUntypedMembers)
       = Inl [mkIssue ''guests'' ''Expected number, received string'']"
  by (simp add: parse_object earlyOutUntyped_parse)
     (simp add: sample_member_defs notStrictlyAfter_def)

text \<open>
  C5, amended: validation rejects any payload whose check-in is not strictly in the
  future at validation time, with an issue on the checkIn field, and rejects any payload
  whose check-out is not strictly after the check-in or whose stay exceeds 365 days; these
  two failures are reported, on the checkOut field, when every member of the payload has
  the type the schema expects (no member aborted).
\<close>

theorem dates_validated:
  assumes "getMember ms ''checkIn'' = Some (JStr a)"
    and "getMember ms ''checkOut'' = Some (JStr b)"
  shows "(\<not> checkInFuture pf now a \<longrightarrow>
            (\<exists>iss. RegistrationSchema_parse pf now (JObj ms) = Inl iss
                   \<and> mkIssue ''checkIn'' ''Check-in date must be in the future'' \<in> set iss))
       \<and> (notStrictlyAfter pf a b \<or> exceedsYear pf a b \<longrightarrow>
            (\<exists>iss. RegistrationSchema_parse pf now (JObj ms) = Inl iss
                   \<and> (snd (parseMembers pf now ms) \<noteq> None \<longrightarrow>
                        (notStrictlyAfter pf a b \<longrightarrow>
                           mkIssue ''checkOut'' ''Check-out date must be after check-in date''
                             \<in> set iss)
                      \<and> (exceedsYear pf a b \<longrightarrow>
                           mkIssue ''checkOut'' ''Stay duration cannot exceed 365 days''
                             \<in> set iss))))"
proof (intro conjI impI)
  assume past: "\<not> checkInFuture pf now a"
  note mem = checkIn_issue [OF assms(1) past]
  show "\<exists>iss. RegistrationSchema_parse pf now (JObj ms) = Inl iss
          \<and> mkIssue ''checkIn'' ''Check-in date must be in the future'' \<in> set iss"
  proof (cases "snd (parseMembers pf now ms)")
    case None
    then show ?thesis using mem by (simp add: parse_object)
  next
    case (Some d)
    then show ?thesis using mem by (auto simp: parse_object)
  qed
next
  assume bad: "notStrictlyAfter pf a b \<or> exceedsYear pf a b"
  show "\<exists>iss. RegistrationSchema_parse pf now (JObj ms) = Inl iss
          \<and> (snd (parseMembers pf now ms) \<noteq> None \<longrightarrow>
               (notStrictlyAfter pf a b \<longrightarrow>
                  mkIssue ''checkOut'' ''Check-out date must be after check-in date'' \<in> set iss)
             \<and> (exceedsYear pf a b \<longrightarrow>
                  mkIssue ''checkOut'' ''Stay duration cannot exceed 365 days'' \<in> set iss))"
  proof (cases "snd (parseMembers pf now ms)")
    case None
    then show ?thesis using parseMembers_abort [OF None] by (simp add: parse_object)
  next
    case (Some d)
    from parseMembers_dates [OF Some assms] have d: "checkIn d = a" "checkOut d = b" by simp_all
    have c1: "notStrictlyAfter pf a b \<Longrightarrow>
        mkIssue ''checkOut'' ''Check-out date must be after check-in date'' \<in> set (crossIssues pf d)"
      by (simp add: crossIssues_def chk_def checkOutAfter_iff d)
    have c2: "exceedsYear pf a b \<Longrightarrow>
        mkIssue ''checkOut'' ''Stay duration cannot exceed 365 days'' \<in> set (crossIssues pf d)"
      by (simp add: crossIssues_def chk_def stayAtMostYear_iff d)
    from bad c1 c2 have ne: "crossIssues pf d \<noteq> []" by auto
    show ?thesis using Some ne c1 c2 by (auto simp: parse_object)
  qed
qed

lemma earlyOut_typed: "snd (parseMembers samplePlatform 1001 earlyOutMembers) \<noteq> None"
  by (simp add: parseMembers_def sample_member_defs member_defs pattern_defs char_class_defs)

theorem dates_validated_witness:
  "(\<exists>iss. RegistrationSchema_parse samplePlatform 1001 (JObj pastInMembers) = Inl iss
          \<and> mkIssue ''checkIn'' ''Check-in date must be in the future'' \<in> set iss)
   \<and> (\<exists>iss. RegistrationSchema_parse samplePlatform 1001 (JObj earlyOutMembers) = Inl iss
          \<and> mkIssue ''checkOut'' ''Check-out date must be after check-in date'' \<in> set iss)"
proof -
  have a1: "getMember pastInMembers ''checkIn'' = Some (JStr ''1970-01-01'')"
    and a2: "getMember pastInMembers ''checkOut'' = Some (JStr ''2030-01-05'')"
    and a3: "\<not> checkInFuture samplePlatform 1001 ''1970-01-01''"
    by (simp_all add: sample_member_defs checkInFuture_def)
  have b1: "getMember earlyOutMembers ''checkIn'' = Some (JStr ''2030-01-01'')"
    and b2: "getMember earlyOutMembers ''checkOut'' = Some (JStr ''2029-12-31'')"
    and b3: "notStrictlyAfter samplePlatform ''2030-01-01'' ''2029-12-31''"
    by (simp_all add: sample_member_defs notStrictlyAfter_def)
  from dates_validated [OF a1 a2, of samplePlatform 1001] a3
  have 1: "\<exists>iss. RegistrationSchema_parse samplePlatform 1001 (JObj pastInMembers) = Inl iss
          \<and> mkIssue ''checkIn'' ''Check-in date must be in the future'' \<in> set iss"
    by blast
  from dates_validated [OF b1 b2, of samplePlatform 1001] b3 earlyOut_typed
  have 2: "\<exists>iss. RegistrationSchema_parse samplePlatform 1001 (JObj earlyOutMembers) = Inl iss
          \<and> mkIssue ''checkOut'' ''Check-out date must be after check-in date'' \<in> set iss"
    by blast
  from 1 2 show ?thesis by blast
qed

subsection \<open>The response to a validation failure\<close>

lemma longStay_parse:
  "parseMembers samplePlatform 1001 longStayNoConsentMembers
     = ([mkIssue ''popiaConsent'' ''POPIA consent is required''], None)"
  by (simp add: parseMembers_def sample_member_defs member_defs pattern_defs char_class_defs)

text \<open>
  C7, as stated: the details list has an entry for every violated rule. With a stay of
  366 days and the first consent \<^verbatim>\<open>false\<close>, the details hold the consent's entry only:
  the violated 365-day rule is not in the list.
\<close>

theorem long_stay_not_surfaced:
  "exceedsYear samplePlatform ''2030-01-01'' ''2031-01-02''
   \<and> getMember longStayNoConsentMembers ''checkIn'' = Some (JStr ''2030-01-01'')
   \<and> getMember longStayNoConsentMembers ''checkOut'' = Some (JStr ''2031-01-02'')
   \<and> fst (POST samplePlatform sampleEnv
            (sampleRequest\<lparr>reqBody := Some (JObj longStayNoConsentMembers)\<rparr>) emptyState)
       = Response 400 (ValidationBody ''Validation failed''
           [mkIssue ''popiaConsent'' ''POPIA consent is required''])"
proof -
  have ip: "clientIp (sampleRequest\<lparr>reqBody := Some (JObj longStayNoConsentMembers)\<rparr>) = ''10.0.0.1''"
    by (simp add: clientIp_def sampleRequest_def)
  have p: "RegistrationSchema_parse samplePlatform (nowValidate sampleEnv)
             (JObj longStayNoConsentMembers)
           = Inl [mkIssue ''popiaConsent'' ''POPIA consent is required'']"
    by (simp add: parse_object longStay_parse sampleEnv_def)
  have "fst (POST samplePlatform sampleEnv
            (sampleRequest\<lparr>reqBody := Some (JObj longStayNoConsentMembers)\<rparr>) emptyState)
       = Response 400 (ValidationBody ''Validation failed''
           [mkIssue ''popiaConsent'' ''POPIA consent is required''])"
    using sample_rate_any [OF ip] p by (simp add: POST_def Let_def)
  moreover have "exceedsYear samplePlatform ''2030-01-01'' ''2031-01-02''"
    by (simp add: exceedsYear_def samplePlatform_def)
  moreover have "getMember longStayNoConsentMembers ''checkIn'' = Some (JStr ''2030-01-01'')"
    "getMember longStayNoConsentMembers ''checkOut'' = Some (JStr ''2031-01-02'')"
    by (simp_all add: sample_member_defs)
  ultimately show ?thesis by blast
qed

text \<open>
  C7, amended: when validation fails, the answer is 400 with a non-empty details list,
  and no submission is stored (every lookup of a record gives what it gave before). For
  an object payload the list holds the issues of all fifteen members together, each
  member's own failed checks whatever the other members are, followed by the failures of
  the two cross-field rules only when no member aborted (each member present with its
  expected type, both consents \<^verbatim>\<open>true\<close>).
\<close>

theorem validation_failure_response:
  assumes "checkRateLimit e (clientIp req) st = (True, st1)"
    and "reqBody req = Some payload"
    and "RegistrationSchema_parse pf (nowValidate e) payload = Inl iss"
  shows "POST pf e req st = (Response 400 (ValidationBody ''Validation failed'' iss), st1)
       \<and> iss \<noteq> []
       \<and> (\<forall>up ident. kvGet up (guestKey ident) st1 = kvGet up (guestKey ident) st)
       \<and> (\<forall>ms. payload = JObj ms \<longrightarrow>
             iss = concat (memberIssues pf (nowValidate e) ms)
                   @ (case snd (parseMembers pf (nowValidate e) ms) of
                        None \<Rightarrow> []
                      | Some d \<Rightarrow> crossIssues pf d))"
proof (intro conjI allI impI)
  show "POST pf e req st = (Response 400 (ValidationBody ''Validation failed'' iss), st1)"
    using assms by (simp add: POST_def Let_def)
  show "iss \<noteq> []" using assms(3) by (rule parse_Inl_nonempty)
  show "kvGet up (guestKey ident) st1 = kvGet up (guestKey ident) st" for up ident
    using checkRateLimit_other [where k = "guestKey ident" and i = "clientIp req" and up = up
        and e = e and st = st]
    by (simp add: assms(1) guestKey_neq_rateKey)
  show "iss = concat (memberIssues pf (nowValidate e) ms)
              @ (case snd (parseMembers pf (nowValidate e) ms) of
                   None \<Rightarrow> []
                 | Some d \<Rightarrow> crossIssues pf d)" if "payload = JObj ms" for ms
    using assms(3) that
    by (auto simp: parse_object parseMembers_issues split: option.splits if_splits)
qed

lemma sloppy_parse:
  "RegistrationSchema_parse samplePlatform 1001 (JObj sloppyMembers)
     = Inl [mkIssue ''fullName'' ''Full name must be at least 2 characters'',
            mkIssue ''phone'' ''Phone number must be at least 6 characters'',
            mkIssue ''guests'' ''At least 1 guest is required'']"
  by (simp add: RegistrationSchema_parse_def parseMembers_def sample_member_defs member_defs
      pattern_defs char_class_defs crossIssues_def checkOutAfterCheckIn_def stayAtMostYear_def)

theorem validation_failure_response_witness:
  "POST samplePlatform sampleEnv (sampleRequest\<lparr>reqBody := Some (JObj sloppyMembers)\<rparr>) emptyState
     = (Response 400 (ValidationBody ''Validation failed''
          [mkIssue ''fullName'' ''Full name must be at least 2 characters'',
           mkIssue ''phone'' ''Phone number must be at least 6 characters'',
           mkIssue ''guests'' ''At least 1 guest is required'']), sampleRated)"
proof -
  let ?req = "sampleRequest\<lparr>reqBody := Some (JObj sloppyMembers)\<rparr>"
  have ip: "clientIp ?req = ''10.0.0.1''"
    by (simp add: clientIp_def sampleRequest_def)
  have b: "reqBody ?req = Some (JObj sloppyMembers)" by simp
  have p: "RegistrationSchema_parse samplePlatform (nowValidate sampleEnv) (JObj sloppyMembers)
     = Inl [mkIssue ''fullName'' ''Full name must be at least 2 characters'',
            mkIssue ''phone'' ''Phone number must be at least 6 characters'',
            mkIssue ''guests'' ''At least 1 guest is required'']"
    using sloppy_parse by (simp add: sampleEnv_def)
  from validation_failure_response [OF sample_rate_any [OF ip] b p]
  show ?thesis by blast
qed

subsection \<open>The spam heuristic\<close>





lemma startsWithCI_iff:
  "startsWithCI s w \<longleftrightarrow> (\<exists>w' rest. s = w' @ rest \<and> map asciiLower w' = w)"
proof
  assume "startsWithCI s w"
  then have "map asciiLower (take (length w) s) = w" by (simp add: startsWithCI_def)
  then show "\<exists>w' rest. s = w' @ rest \<and> map asciiLower w' = w"
    by (intro exI [of _ "take (length w) s"] exI [of _ "drop (length w) s"]) simp
next
  assume "\<exists>w' rest. s = w' @ rest \<and> map asciiLower w' = w"
  then obtain w' rest where s: "s = w' @ rest" and m: "map asciiLower w' = w" by blast
  from m have "length w' = length w" by auto
  with s m show "startsWithCI s w" by (simp add: startsWithCI_def)
qed











lemma keyword_nonempty: "map asciiLower w \<in> set spamKeywords \<Longrightarrow> w \<noteq> []"
  by (auto simp: spamKeywords_def)







subsection \<open>The document renderer\<close>

lemma drawText_plain:
  "canEncode lib f t \<Longrightarrow> drawText lib t x y sz f None os = Some (os @ [DrawText t x y sz f], y)"
  by (simp add: drawText_def pageDrawText_def)

lemma textAt_plain:
  "canEncode lib f t \<Longrightarrow>
     textAt lib t x sz f None s = Some (s\<lparr>ops := ops s @ [DrawText t x (ypos s) sz f]\<rparr>)"
  by (simp add: textAt_def drawText_plain)

lemma textAt_throws: "\<not> canEncode lib f t \<Longrightarrow> textAt lib t x sz f None s = None"
  by (simp add: textAt_def drawText_def pageDrawText_def)

lemma runSteps_append:
  "runSteps (fs @ gs) s = (case runSteps fs s of None \<Rightarrow> None | Some s' \<Rightarrow> runSteps gs s')"
  by (induction fs arbitrary: s) (auto split: option.splits)

lemma runSteps_throws:
  assumes "i < length fs" and "\<forall>s. (fs ! i) s = None"
  shows "runSteps fs s = None"
proof -
  have fs: "fs = take i fs @ [fs ! i] @ drop (Suc i) fs"
    using assms(1) by (simp add: id_take_nth_drop [symmetric])
  have "runSteps (take i fs @ [fs ! i] @ drop (Suc i) fs) s = None"
    using assms(2) by (simp add: runSteps_append split: option.splits)
  with fs show ?thesis by simp
qed

lemma renderSteps_length: "length (renderSteps lib genNow ident sub) = 46"
  by (simp add: renderSteps_def Let_def)

lemma renderSteps_consent:
  "renderSteps lib genNow ident sub ! 32 = textAt lib popiaLine margin 10 Helvetica None"
  by (simp add: renderSteps_def Let_def)

text \<open>
  The statement that draws the first consent line is outside every inner \<^verbatim>\<open>try\<close>: when the
  library cannot encode that line in Helvetica, the render throws, and the endpoint
  answers 500 for every stored record.
\<close>

lemma render_needs_check_mark:
  assumes "\<not> canEncode lib Helvetica popiaLine"
  shows "render lib genNow ident sub = None"
proof -
  have "\<forall>s. (renderSteps lib genNow ident sub ! 32) s = None"
    using assms by (simp add: renderSteps_consent textAt_throws)
  then have "runSteps (renderSteps lib genNow ident sub)
               \<lparr>ops = [AddPage], ypos = pageHeight lib - margin\<rparr> = None"
    by (intro runSteps_throws [of 32]) (simp_all add: renderSteps_length)
  then show ?thesis by (simp add: render_def)
qed

lemma GET_pdf_throws:
  assumes "\<not> canEncode lib Helvetica popiaLine"
    and "isValidUUID ident" and "kvGet up (guestKey ident) st = Some (Sub sub)"
  shows "GET_pdf lib up genNow ident st = JsonError 500 ''Failed to generate PDF''"
proof -
  have "ident \<noteq> []" using assms(2) by (auto simp: isValidUUID_def eval_nat_numeral)
  with assms render_needs_check_mark [OF assms(1), of genNow ident sub]
  show ?thesis by (simp add: GET_pdf_def)
qed

lemma sample_uuid_valid: "isValidUUID ''123e4567-e89b-42d3-a456-426614174000''"
  by (simp add: isValidUUID_def isHexDigit_def eval_nat_numeral)

lemma sampleLib_no_check_mark: "\<not> canEncode sampleLib Helvetica popiaLine"
  by (simp add: sampleLib_def popiaLine_def checkMark_def isWinAnsi_def)

text \<open>
  C3. The claim: after a valid, non-spam submission, the render of the returned
  identifier succeeds and shows the full name and both consents as granted. On the code,
  the sample submission is answered 201 and its record is stored under the returned
  identifier, but the render of that identifier is answered 500: both consent lines begin
  with a check mark, which Helvetica in WinAnsi cannot encode.
\<close>

theorem render_after_submit_answers_500:
  "fst (POST samplePlatform sampleEnv sampleRequest emptyState)
     = Response 201 (SuccessBody ''123e4567-e89b-42d3-a456-426614174000''
         ''Registration submitted successfully'')
   \<and> kvGet True (guestKey ''123e4567-e89b-42d3-a456-426614174000'')
        (snd (POST samplePlatform sampleEnv sampleRequest emptyState)) = Some (Sub sampleSubmission)
   \<and> GET_pdf sampleLib True 0 ''123e4567-e89b-42d3-a456-426614174000''
        (snd (POST samplePlatform sampleEnv sampleRequest emptyState))
       = JsonError 500 ''Failed to generate PDF''"
proof -
  have post: "POST samplePlatform sampleEnv sampleRequest emptyState =
     (Response 201 (SuccessBody ''123e4567-e89b-42d3-a456-426614174000''
         ''Registration submitted successfully''),
      kvSet True (guestKey ''123e4567-e89b-42d3-a456-426614174000'') (Sub sampleSubmission)
        (Some expirationSeconds) sampleRated)"
    using sample_POST [of True] by (simp add: sampleEnv_def)
  have found: "kvGet True (guestKey ''123e4567-e89b-42d3-a456-426614174000'')
        (snd (POST samplePlatform sampleEnv sampleRequest emptyState)) = Some (Sub sampleSubmission)"
    by (simp add: post kvGet_kvSet_same)
  from GET_pdf_throws [OF sampleLib_no_check_mark sample_uuid_valid found, of 0] post found
  show ?thesis by simp
qed

subsection \<open>Image failures\<close>

lemma placeImage_fails:
  assumes "canEncode lib Helvetica (placeholderText label)" and "imageFails lib dataUrl"
  shows "placeImage lib dataUrl label s =
           Some (s\<lparr>ops := ops s @ [DrawText (placeholderText label) margin (ypos s) 10 Helvetica],
                   ypos := ypos s - 20\<rparr>)"
proof -
  have "tryPlace lib dataUrl label s = Inl s"
    using assms(2)
    by (auto simp: imageFails_def tryPlace_def split: option.splits if_splits)
  then show ?thesis
    using assms by (simp add: placeImage_def imageFails_def textAt_plain down_def)
qed

lemma placeImage_unsupported:
  assumes "imageUnsupported lib dataUrl"
  shows "placeImage lib dataUrl label s = Some s"
  using assms
  by (auto simp: placeImage_def imageUnsupported_def tryPlace_def split: option.splits)

text \<open>The step of a slot never throws when its placeholder line can be drawn.\<close>

lemma placeImage_total:
  assumes "canEncode lib Helvetica (placeholderText label)"
  shows "\<exists>s'. placeImage lib dataUrl label s = Some s'"
proof (cases "dataUrl = []")
  case True
  then show ?thesis by (simp add: placeImage_def)
next
  case False
  show ?thesis
  proof (cases "tryPlace lib dataUrl label s")
    case (Inl s1)
    with False assms show ?thesis by (simp add: placeImage_def textAt_plain down_def)
  next
    case (Inr s1)
    with False show ?thesis by (simp add: placeImage_def)
  qed
qed

text \<open>
  C9, as stated: an image that cannot be decoded or embedded is replaced by a textual
  placeholder. The sample payload passes validation with a GIF as its identity image;
  the renderer can embed PNG and JPEG only, and for the GIF it draws nothing at all: no
  image and no placeholder.
\<close>

theorem unsupported_image_no_placeholder:
  "RegistrationSchema_parse samplePlatform 1001 (JObj sampleMembers) = Inr sampleData
   \<and> idImage sampleData = ''data:image/gif;base64,AAAA''
   \<and> placeImage sampleLib (idImage sampleData) ''ID/Passport Document''
         \<lparr>ops = [AddPage], ypos = 500\<rparr>
       = Some \<lparr>ops = [AddPage], ypos = 500\<rparr>"
  by (simp add: sample_parse)
     (simp add: sampleData_def placeImage_def tryPlace_def nth_js_def startsWith_def sampleLib_def
        isBase64Char_def char_class_defs)

text \<open>
  C9, amended: the image step of a slot, given that the library can draw the slot's
  placeholder line, never throws, so the failure of one image does not stop the
  statements after it. When the image fails (no payload after the first comma, a payload
  that does not decode, whatever type is declared, or a PNG or JPEG decoder that throws),
  the step draws the textual placeholder of that slot and nothing else. When the payload
  decodes and the declared type is neither PNG nor JPEG, the step draws nothing: no image
  and no placeholder.
\<close>

theorem image_failure_isolated:
  assumes "canEncode lib Helvetica (placeholderText label)"
  shows "(\<exists>s'. placeImage lib dataUrl label s = Some s')
       \<and> (imageFails lib dataUrl \<longrightarrow>
            placeImage lib dataUrl label s =
              Some (s\<lparr>ops := ops s @ [DrawText (placeholderText label) margin (ypos s) 10 Helvetica],
                      ypos := ypos s - 20\<rparr>))
       \<and> (imageUnsupported lib dataUrl \<longrightarrow> placeImage lib dataUrl label s = Some s)"
  using placeImage_total [OF assms] placeImage_fails [OF assms] placeImage_unsupported
  by blast

theorem image_failure_isolated_witness:
  "placeImage sampleLib ''data:image/png;base64,!!!!'' ''Digital Signature''
       \<lparr>ops = [AddPage], ypos = 500\<rparr>
     = Some \<lparr>ops = [AddPage,
                      DrawText ''Digital Signature: [Image processing failed]'' 50 500 10 Helvetica],
             ypos = 480\<rparr>
   \<and> placeImage sampleLib ''data:image/webp;base64,!!!!'' ''Selfie Photo''
       \<lparr>ops = [AddPage], ypos = 500\<rparr>
     = Some \<lparr>ops = [AddPage,
                      DrawText ''Selfie Photo: [Image processing failed]'' 50 500 10 Helvetica],
             ypos = 480\<rparr>
   \<and> placeImage sampleLib ''data:image/webp;base64,AAAA'' ''Selfie Photo''
       \<lparr>ops = [AddPage], ypos = 500\<rparr>
     = Some \<lparr>ops = [AddPage], ypos = 500\<rparr>"
proof -
  have e1: "canEncode sampleLib Helvetica (placeholderText ''Digital Signature'')"
    and e2: "canEncode sampleLib Helvetica (placeholderText ''Selfie Photo'')"
    by (simp_all add: sampleLib_def placeholderText_def isWinAnsi_def)
  have f1: "imageFails sampleLib ''data:image/png;base64,!!!!''"
    and f2: "imageFails sampleLib ''data:image/webp;base64,!!!!''"
    by (simp_all add: imageFails_def nth_js_def sampleLib_def isBase64Char_def char_class_defs)
  have u: "imageUnsupported sampleLib ''data:image/webp;base64,AAAA''"
    by (simp add: imageUnsupported_def nth_js_def startsWith_def sampleLib_def isBase64Char_def
        char_class_defs)
  from image_failure_isolated [OF e1, of "''data:image/png;base64,!!!!''"
      "\<lparr>ops = [AddPage], ypos = 500\<rparr>"] f1
  have 1: "placeImage sampleLib ''data:image/png;base64,!!!!'' ''Digital Signature''
       \<lparr>ops = [AddPage], ypos = 500\<rparr>
     = Some \<lparr>ops = [AddPage,
                      DrawText ''Digital Signature: [Image processing failed]'' 50 500 10 Helvetica],
             ypos = 480\<rparr>"
    by (simp add: placeholderText_def margin_def)
  from image_failure_isolated [OF e2, of "''data:image/webp;base64,!!!!''"
      "\<lparr>ops = [AddPage], ypos = 500\<rparr>"] f2
  have 2: "placeImage sampleLib ''data:image/webp;base64,!!!!'' ''Selfie Photo''
       \<lparr>ops = [AddPage], ypos = 500\<rparr>
     = Some \<lparr>ops = [AddPage,
                      DrawText ''Selfie Photo: [Image processing failed]'' 50 500 10 Helvetica],
             ypos = 480\<rparr>"
    by (simp add: placeholderText_def margin_def)
  from image_failure_isolated [OF e2, of "''data:image/webp;base64,AAAA''"
      "\<lparr>ops = [AddPage], ypos = 500\<rparr>"] u
  have 3: "placeImage sampleLib ''data:image/webp;base64,AAAA'' ''Selfie Photo''
       \<lparr>ops = [AddPage], ypos = 500\<rparr> = Some \<lparr>ops = [AddPage], ypos = 500\<rparr>"
    by simp
  from 1 2 3 show ?thesis by blast
qed

end
